theory Spec2Isabelle
  imports Complex_Main
begin

section \<open>Conventions\<close>

text \<open>
  Python floats are modelled as \<^typ>\<open>real\<close>. The arithmetic is exact, except in
  \<^verbatim>\<open>quantize_price\<close>, whose operations round to doubles; overflow, infinities and NaN of
  IEEE doubles are outside the model. Python integers are
  \<^typ>\<open>int\<close>. A \<^verbatim>\<open>datetime\<close> is its number of microseconds since the epoch, in UTC
  (the aggregator makes every naive timestamp UTC before it uses it), so comparing two
  datetimes is comparing two integers.
\<close>

type_synonym datetime = int

section \<open>Bar aggregator (ua/data/aggregator.py)\<close>

text \<open>\<^verbatim>\<open>floor_minute\<close>: \<^verbatim>\<open>ts.replace(second=0, microsecond=0)\<close>.\<close>

definition floor_minute :: "datetime \<Rightarrow> datetime" where
  "floor_minute ts = (ts div 60000000) * 60000000"

record CandleBucket =
  start :: datetime
  b_open :: real
  high :: real
  low :: real
  close :: real
  volume :: real

text \<open>The one-row data frame that \<^verbatim>\<open>update\<close> and \<^verbatim>\<open>finalize\<close> return.\<close>

record bar =
  timestamp :: datetime
  Open :: real
  High :: real
  Low :: real
  Close :: real
  Volume :: real

definition bar_of :: "CandleBucket \<Rightarrow> bar" where
  "bar_of b = \<lparr>timestamp = start b, Open = b_open b, High = high b, Low = low b,
     Close = close b, Volume = volume b\<rparr>"

definition seed :: "datetime \<Rightarrow> real \<Rightarrow> real \<Rightarrow> CandleBucket" where
  "seed key price vol = \<lparr>start = key, b_open = price, high = price, low = price,
     close = price, volume = vol\<rparr>"

text \<open>
  \<^verbatim>\<open>CandleAggregator.update\<close>. The aggregator's only field is \<^verbatim>\<open>self.bucket\<close>, so the
  state is a \<^typ>\<open>CandleBucket option\<close>; the function returns the finalized row (or
  \<^verbatim>\<open>None\<close>) and the new state.
\<close>

definition update :: "CandleBucket option \<Rightarrow> datetime \<Rightarrow> real \<Rightarrow> real
    \<Rightarrow> bar option \<times> CandleBucket option" where
  "update bucket ts price vol =
     (let key = floor_minute ts in
      case bucket of
        None \<Rightarrow> (None, Some (seed key price vol))
      | Some b \<Rightarrow>
          if key > start b then (Some (bar_of b), Some (seed key price vol))
          else (None, Some (b\<lparr>high := max (high b) price, low := min (low b) price,
                   close := price, volume := volume b + vol\<rparr>)))"

definition finalize :: "CandleBucket option \<Rightarrow> bar option \<times> CandleBucket option" where
  "finalize bucket = (case bucket of None \<Rightarrow> (None, None) | Some b \<Rightarrow> (Some (bar_of b), None))"


section \<open>Price quantization (ua/broker/upbit.py)\<close>

text \<open>
  \<^verbatim>\<open>quantize_price\<close> is one division, one truncation and one product, and its result depends
  on how the two float operations round, so they are modelled on doubles: the result of
  a float operation is the double nearest to the exact result, ties going to the even
  significand. \<^term>\<open>rne y\<close> is \<^term>\<open>y\<close> rounded to the nearest integer in this way.
  \<^term>\<open>double x\<close> rounds \<^term>\<open>x\<close> to a multiple of \<^term>\<open>pow2 e\<close>, two to the power \<^term>\<open>e\<close>,
  where \<^term>\<open>e\<close> is the exponent that brings the significand \<^term>\<open>\<bar>x\<bar> / pow2 e\<close> to at
  least \<^term>\<open>(2::real) ^ 52\<close> and under \<^term>\<open>(2::real) ^ 53\<close>: it is searched upwards from 0
  for a magnitude of \<^term>\<open>(2::real) ^ 53\<close> or more, and downwards otherwise, where it stops
  at -1074, the exponent of the subnormal numbers. The largest exponent of a double is
  971: a result of magnitude \<^term>\<open>(2::real) ^ 1024\<close> or more (an infinity in Python) and
  NaN are outside the model.
\<close>

definition rne :: "real \<Rightarrow> int" where
  "rne y = (let f = \<lfloor>y\<rfloor>; d = y - real_of_int f
            in if d < 1 / 2 then f else if d > 1 / 2 then f + 1
               else if even f then f else f + 1)"

definition pow2 :: "int \<Rightarrow> real" where
  "pow2 e = (if 0 \<le> e then 2 ^ nat e else 1 / 2 ^ nat (- e))"

fun exp_up :: "nat \<Rightarrow> real \<Rightarrow> int \<Rightarrow> int" where
  "exp_up 0 a e = e"
| "exp_up (Suc n) a e = (if 2 ^ 53 \<le> a / pow2 e then exp_up n a (e + 1) else e)"

fun exp_down :: "nat \<Rightarrow> real \<Rightarrow> int \<Rightarrow> int" where
  "exp_down 0 a e = e"
| "exp_down (Suc n) a e = (if a / pow2 e < 2 ^ 52 then exp_down n a (e - 1) else e)"

definition exponent :: "real \<Rightarrow> int" where
  "exponent a = (if 2 ^ 53 \<le> a then exp_up 971 a 0 else exp_down 1074 a 0)"

definition double :: "real \<Rightarrow> real" where
  "double x = (let e = exponent \<bar>x\<bar> in real_of_int (rne (x / pow2 e)) * pow2 e)"

text \<open>Python's \<^verbatim>\<open>int(x)\<close> on a float truncates towards zero.\<close>

definition py_int :: "real \<Rightarrow> int" where
  "py_int x = (if x \<ge> 0 then \<lfloor>x\<rfloor> else \<lceil>x\<rceil>)"

text \<open>
  \<^verbatim>\<open>UpbitBroker.quantize_price\<close>: \<^verbatim>\<open>(int(price / price_unit)) * price_unit\<close>, the quotient and
  the product each rounded to a double. \<^verbatim>\<open>not price_unit\<close> is true for \<^verbatim>\<open>None\<close> and for
  \<^verbatim>\<open>0.0\<close>.
\<close>

definition quantize_price :: "real \<Rightarrow> real option \<Rightarrow> real" where
  "quantize_price price price_unit =
     (case price_unit of
        None \<Rightarrow> price
      | Some u \<Rightarrow> if u = 0 \<or> u \<le> 0 then price
                  else double (real_of_int (py_int (double (price / u))) * u))"

section \<open>Execution/accounting model (ua/engine/common.py)\<close>

datatype py_error = ValueError | ZeroDivisionError | TypeError

text \<open>
  A call of a method of the logger: the event, its one string field (\<^verbatim>\<open>type\<close>, \<^verbatim>\<open>side\<close> or
  \<^verbatim>\<open>direction\<close>), its float fields in the order of the source, \<^verbatim>\<open>run_id\<close>, \<^verbatim>\<open>market\<close>
  and \<^verbatim>\<open>bar\<close>.
\<close>

datatype log_event = LogEvent string string "real list" "string option" "string option" int

text \<open>
  The argument \<^verbatim>\<open>log\<close> is any object. A call of \<^verbatim>\<open>log.info\<close> or \<^verbatim>\<open>log.warning\<close> either returns
  (its value is not used) or raises, and an exception leaves \<^verbatim>\<open>simulate_long_only\<close>, which
  has no handler. What the object does with a call may depend on the calls it has taken
  before: a logger is a function of those calls and the new call, whose value is \<^verbatim>\<open>None\<close>
  when the call returns and the exception when it raises. Every call of the source passes
  the event positionally and again as the keyword \<^verbatim>\<open>event\<close>, so a logger whose methods name
  their first parameter \<^verbatim>\<open>event\<close> raises \<^verbatim>\<open>TypeError\<close> on each of them.
\<close>

type_synonym logger = "log_event list \<Rightarrow> log_event \<Rightarrow> py_error option"

definition accept_all :: logger where
  "accept_all = (\<lambda>seen ev. None)"

definition refuse_all :: logger where
  "refuse_all = (\<lambda>seen ev. Some TypeError)"

text \<open>The arguments of \<^verbatim>\<open>simulate_long_only\<close> after the two series.\<close>

record sim_args =
  cash :: real
  fee :: real
  slippage :: real
  max_fraction :: real
  cooldown_bars :: int
  stop_drawdown :: "real option"
  logger :: "logger option"
  run_id :: "string option"
  market :: "string option"

text \<open>The local variables of \<^verbatim>\<open>simulate_long_only\<close> that the loop updates.\<close>

record sim_state =
  equity_curve :: "real list"
  position :: real
  entry_price :: real
  trades :: "real list"
  wins :: nat
  cash_bal :: real
  last_trade_bar :: int
  logged :: "log_event list"

definition sim_init :: "sim_args \<Rightarrow> sim_state" where
  "sim_init a = \<lparr>equity_curve = [], position = 0, entry_price = 0, trades = [], wins = 0,
     cash_bal = cash a, last_trade_bar = - (10 ^ 9), logged = []\<rparr>"

text \<open>
  The calls that follow \<^verbatim>\<open>if log is not None\<close>, in order: the first one that raises ends
  the run; \<^const>\<open>logged\<close> keeps the calls the logger has taken.
\<close>

fun log_calls :: "logger \<Rightarrow> log_event list \<Rightarrow> log_event list \<Rightarrow> py_error + log_event list" where
  "log_calls l seen [] = Inr seen"
| "log_calls l seen (ev # evs) =
     (case l seen ev of Some e \<Rightarrow> Inl e | None \<Rightarrow> log_calls l (seen @ [ev]) evs)"

definition emit :: "sim_args \<Rightarrow> log_event list \<Rightarrow> sim_state \<Rightarrow> py_error + sim_state" where
  "emit a evs s =
     (case logger a of
        None \<Rightarrow> Inr s
      | Some l \<Rightarrow>
          (case log_calls l (logged s) evs of
             Inl e \<Rightarrow> Inl e
           | Inr seen \<Rightarrow> Inr (s\<lparr>logged := seen\<rparr>)))"

text \<open>
  Closing the position at \<^verbatim>\<open>sell_price\<close>: the body shared by the exit branch of the loop and
  the forced close after it. The source divides by \<^verbatim>\<open>entry_price\<close>, which raises
  \<^verbatim>\<open>ZeroDivisionError\<close> when it is zero.
\<close>

definition trade_ret_of :: "sim_args \<Rightarrow> real \<Rightarrow> sim_state \<Rightarrow> py_error + real" where
  "trade_ret_of a sell_price s =
     (if entry_price s = 0 then Inl ZeroDivisionError
      else Inr ((sell_price - entry_price s) / entry_price s * 100 - (fee a * 100 + fee a * 100)))"

definition close_position :: "sim_args \<Rightarrow> real \<Rightarrow> real \<Rightarrow> sim_state \<Rightarrow> sim_state" where
  "close_position a sell_price trade_ret s =
     (let notional = position s * sell_price;
          fee_amt = notional * fee a;
          proceeds = notional - fee_amt
      in s\<lparr>trades := trades s @ [trade_ret],
            wins := (if trade_ret > 0 then wins s + 1 else wins s),
            cash_bal := cash_bal s + proceeds,
            position := 0,
            entry_price := 0\<rparr>)"

text \<open>
  One iteration of \<^verbatim>\<open>for i, price in enumerate(close)\<close>. The result is the exception raised
  (by the division or by the logger), or the new state and whether the loop was left by
  \<^verbatim>\<open>break\<close> (the drawdown stop).
\<close>

definition sim_bar :: "sim_args \<Rightarrow> int \<Rightarrow> real \<Rightarrow> int \<Rightarrow> sim_state
    \<Rightarrow> py_error + (sim_state \<times> bool)" where
  "sim_bar a i price sig s0 =
     (let eq = cash_bal s0 + position s0 * price;
          s = s0\<lparr>equity_curve := equity_curve s0 @ [eq]\<rparr>
      in
      if (case stop_drawdown a of None \<Rightarrow> False
          | Some d \<Rightarrow> cash a > 0 \<and> (eq - cash a) / cash a \<le> - d)
      then map_sum id (\<lambda>s'. (s', True))
             (emit a [LogEvent ''risk_violation'' ''max_daily_loss''
                [(eq - cash a) / cash a, - the (stop_drawdown a)] (run_id a) (market a) i] s)
      else if sig = 1 \<and> position s = 0 \<and> i - last_trade_bar s \<ge> cooldown_bars a then
        (let buy_price = price * (1 + slippage a) in
         if buy_price \<le> 0 then Inr (s, False)
         else
           (let budget = cash_bal s * max_fraction a;
                qty = budget / buy_price;
                notional = qty * buy_price;
                fee_amt = notional * fee a
            in if qty > 0 then
                 map_sum id (\<lambda>s'. (s', False))
                   (emit a
                     [LogEvent ''order_submitted'' ''buy'' [buy_price, qty, fee_amt] (run_id a) (market a) i,
                      LogEvent ''order_filled'' ''buy'' [buy_price, qty, fee_amt] (run_id a) (market a) i,
                      LogEvent ''position_opened'' ''long'' [qty, buy_price] (run_id a) (market a) i]
                     (s\<lparr>position := qty, cash_bal := cash_bal s - notional - fee_amt,
                        entry_price := buy_price, last_trade_bar := i\<rparr>))
               else Inr (s, False)))
      else if sig = - 1 \<and> position s > 0 \<and> i - last_trade_bar s \<ge> cooldown_bars a then
        (let sell_price = price * (1 - slippage a);
             notional = position s * sell_price;
             fee_amt = notional * fee a;
             shown_qty = (if sell_price \<noteq> 0 then notional / sell_price else 0)
         in case trade_ret_of a sell_price s of
              Inl e \<Rightarrow> Inl e
            | Inr trade_ret \<Rightarrow>
                map_sum id (\<lambda>s'. (s', False))
                  (emit a
                    [LogEvent ''order_submitted'' ''sell'' [sell_price, shown_qty, fee_amt] (run_id a) (market a) i,
                     LogEvent ''order_filled'' ''sell'' [sell_price, shown_qty, fee_amt] (run_id a) (market a) i,
                     LogEvent ''position_closed'' ''long'' [sell_price, trade_ret] (run_id a) (market a) i]
                    ((close_position a sell_price trade_ret s)\<lparr>last_trade_bar := i\<rparr>)))
      else Inr (s, False))"

text \<open>
  The loop over the bars, from index \<^term>\<open>i\<close>: the state after it and \<^verbatim>\<open>stopped_reason\<close>
  (\<^verbatim>\<open>None\<close> when the loop ran to the end of the series).
\<close>

fun sim_loop :: "sim_args \<Rightarrow> int \<Rightarrow> (real \<times> int) list \<Rightarrow> sim_state
    \<Rightarrow> py_error + (sim_state \<times> string option)" where
  "sim_loop a i [] s = Inr (s, None)"
| "sim_loop a i ((price, sig) # bars) s =
     (case sim_bar a i price sig s of
        Inl e \<Rightarrow> Inl e
      | Inr (s', stop) \<Rightarrow>
          if stop then Inr (s', Some ''risk_violation'') else sim_loop a (i + 1) bars s')"

text \<open>\<^verbatim>\<open># close any open position at last price\<close>\<close>

definition close_open_position :: "sim_args \<Rightarrow> real list \<Rightarrow> sim_state \<Rightarrow> py_error + sim_state" where
  "close_open_position a closes s =
     (if position s > 0 \<and> length closes > 0 then
        (let price = last closes;
             sell_price = price * (1 - slippage a)
         in case trade_ret_of a sell_price s of
              Inl e \<Rightarrow> Inl e
            | Inr trade_ret \<Rightarrow>
                (let s' = close_position a sell_price trade_ret s
                 in Inr (s'\<lparr>equity_curve := equity_curve s' @ [cash_bal s']\<rparr>)))
      else Inr s)"

subsection \<open>Metrics\<close>

text \<open>
  \<^verbatim>\<open>_max_drawdown\<close> and the Sharpe ratio are computed by pandas, where a division by zero
  gives an infinity or NaN instead of raising. Those values are outside the reals: the
  model returns \<^verbatim>\<open>None\<close> for the metric when a divisor is zero (a running peak for the
  drawdown, an earlier equity for the returns) or when the sample standard deviation has
  fewer than two returns to work on.
\<close>

fun cummax_from :: "real \<Rightarrow> real list \<Rightarrow> real list" where
  "cummax_from m [] = []"
| "cummax_from m (x # xs) = max m x # cummax_from (max m x) xs"

definition cummax :: "real list \<Rightarrow> real list" where
  "cummax xs = (case xs of [] \<Rightarrow> [] | x # ys \<Rightarrow> x # cummax_from x ys)"

definition list_min :: "real list \<Rightarrow> real" where
  "list_min xs = fold min (tl xs) (hd xs)"

definition max_drawdown :: "real list \<Rightarrow> real option" where
  "max_drawdown equity =
     (let peak = cummax equity;
          dd = map2 (\<lambda>e p. (e - p) / p) equity peak
      in if dd = [] then Some 0
         else if 0 \<in> set peak then None
         else Some (list_min dd * 100))"

definition mean :: "real list \<Rightarrow> real" where
  "mean xs = sum_list xs / real (length xs)"

definition std :: "real list \<Rightarrow> real" where
  "std xs = sqrt (sum_list (map (\<lambda>x. (x - mean xs) ^ 2) xs) / real (length xs - 1))"

definition pct_change :: "real list \<Rightarrow> real list" where
  "pct_change equity = map2 (\<lambda>prev cur. cur / prev - 1) (butlast equity) (tl equity)"

definition sharpe_ratio :: "real list \<Rightarrow> real option" where
  "sharpe_ratio equity =
     (if length equity > 1 then
        (let r = pct_change equity
         in if 0 \<in> set (butlast equity) \<or> length r < 2 then None
            else Some (sqrt 252 * mean r / (std r + 1 / 10 ^ 12)))
      else Some 0)"

record metrics =
  Equity_Final :: real
  Return_pct :: real
  Max_Drawdown_pct :: "real option"
  Win_Rate_pct :: real
  Num_Trades :: nat
  Avg_Trade_pct :: real
  Sharpe_Ratio :: "real option"
  StoppedReason :: string

definition metrics_of :: "sim_args \<Rightarrow> sim_state \<Rightarrow> string option \<Rightarrow> metrics" where
  "metrics_of a s stopped_reason =
     (let equity = equity_curve s;
          equity_final = (if equity \<noteq> [] then last equity else cash a);
          num_trades = length (trades s)
      in \<lparr>Equity_Final = equity_final,
          Return_pct = (if cash a > 0 then (equity_final - cash a) / cash a * 100 else 0),
          Max_Drawdown_pct = max_drawdown equity,
          Win_Rate_pct = (if num_trades > 0 then real (wins s) / real num_trades * 100 else 0),
          Num_Trades = num_trades,
          Avg_Trade_pct = (if trades s \<noteq> [] then mean (trades s) else 0),
          Sharpe_Ratio = sharpe_ratio equity,
          StoppedReason = (case stopped_reason of None \<Rightarrow> ''completed'' | Some r \<Rightarrow> r)\<rparr>)"

text \<open>
  \<^verbatim>\<open>simulate_long_only\<close>. The data frame is its \<^verbatim>\<open>Close\<close> column; \<^verbatim>\<open>pd.Series(list(signals),
  index=close.index)\<close> raises \<^verbatim>\<open>ValueError\<close> when the two lengths differ. The signals are
  the integers after \<^verbatim>\<open>fillna(0).astype(int)\<close>. The result is the exception raised, or
  \<^verbatim>\<open>SimResult\<close> (the metrics and the equity curve) and the calls the logger has taken.
\<close>

type_synonym SimResult = "metrics \<times> real list"

definition simulate_args :: "sim_args \<Rightarrow> real list \<Rightarrow> int list
    \<Rightarrow> py_error + (SimResult \<times> log_event list)" where
  "simulate_args a closes signals =
     (if length signals \<noteq> length closes then Inl ValueError
      else case sim_loop a 0 (zip closes signals) (sim_init a) of
        Inl e \<Rightarrow> Inl e
      | Inr (s, stopped_reason) \<Rightarrow>
          (case close_open_position a closes s of
             Inl e \<Rightarrow> Inl e
           | Inr s' \<Rightarrow> Inr ((metrics_of a s' stopped_reason, equity_curve s'), logged s')))"

definition simulate_long_only :: "real list \<Rightarrow> int list \<Rightarrow> real \<Rightarrow> real \<Rightarrow> real \<Rightarrow> real \<Rightarrow> int
    \<Rightarrow> real option \<Rightarrow> logger option \<Rightarrow> string option \<Rightarrow> string option
    \<Rightarrow> py_error + (SimResult \<times> log_event list)" where
  "simulate_long_only closes signals cash' fee' slippage' max_fraction' cooldown_bars'
       stop_drawdown' log' run_id' market' =
     simulate_args \<lparr>cash = cash', fee = fee', slippage = slippage', max_fraction = max_fraction',
       cooldown_bars = cooldown_bars', stop_drawdown = stop_drawdown', logger = log',
       run_id = run_id', market = market'\<rparr> closes signals"

section \<open>Inbound frames (ua/live/portfolio_ws.py, ua/live/ws_loop.py)\<close>

text \<open>
  What \<^verbatim>\<open>json.loads\<close> returns. An object is the list of its items (each key once). A frame
  that is not JSON, or not UTF-8, makes \<^verbatim>\<open>json.loads\<close> raise: such a frame is \<^verbatim>\<open>None\<close> below.
\<close>

datatype json = JNull | JBool bool | JInt int | JFloat real | JStr string
  | JArr "json list" | JObj "(string \<times> json) list"

text \<open>
  The conversions of Python that read text: \<^verbatim>\<open>float\<close> and \<^verbatim>\<open>int\<close> of a string (\<^verbatim>\<open>None\<close> when
  they raise) and \<^verbatim>\<open>str\<close> of a number, a list or an object. They are parameters of the
  model; on the other values the conversions are written out.
\<close>

record py_conv =
  float_of_str :: "string \<Rightarrow> real option"
  int_of_str :: "string \<Rightarrow> int option"
  repr :: "json \<Rightarrow> string"

definition py_float :: "py_conv \<Rightarrow> json \<Rightarrow> real option" where
  "py_float cv j = (case j of
       JFloat x \<Rightarrow> Some x
     | JInt i \<Rightarrow> Some (real_of_int i)
     | JBool b \<Rightarrow> Some (if b then 1 else 0)
     | JStr s \<Rightarrow> float_of_str cv s
     | _ \<Rightarrow> None)"

definition py_int_of :: "py_conv \<Rightarrow> json \<Rightarrow> int option" where
  "py_int_of cv j = (case j of
       JInt i \<Rightarrow> Some i
     | JFloat x \<Rightarrow> Some (py_int x)
     | JBool b \<Rightarrow> Some (if b then 1 else 0)
     | JStr s \<Rightarrow> int_of_str cv s
     | _ \<Rightarrow> None)"

definition py_str :: "py_conv \<Rightarrow> json \<Rightarrow> string" where
  "py_str cv j = (case j of
       JStr s \<Rightarrow> s
     | JNull \<Rightarrow> ''None''
     | JBool b \<Rightarrow> (if b then ''True'' else ''False'')
     | _ \<Rightarrow> repr cv j)"

text \<open>\<^verbatim>\<open>msg.get(key, default)\<close> on a dict; on anything else the attribute is missing.\<close>

definition dict_get :: "(string \<times> json) list \<Rightarrow> string \<Rightarrow> json \<Rightarrow> json" where
  "dict_get items key dflt = (case map_of items key of None \<Rightarrow> dflt | Some v \<Rightarrow> v)"

text \<open>
  \<^verbatim>\<open>datetime.fromtimestamp(ts_ms / 1000, tz=timezone.utc)\<close>: the datetime in microseconds;
  it raises outside the years 1 to 9999.
\<close>

definition fromtimestamp_ms :: "int \<Rightarrow> datetime option" where
  "fromtimestamp_ms ts_ms =
     (if - 62135596800000 \<le> ts_ms \<and> ts_ms < 253402300800000 then Some (ts_ms * 1000) else None)"

text \<open>
  \<^verbatim>\<open>_parse_trade\<close> of \<^verbatim>\<open>portfolio_ws.py\<close>: market, timestamp, price and volume, or \<^verbatim>\<open>None\<close> when
  anything in the \<^verbatim>\<open>try\<close> block raises.
\<close>

definition parse_trade :: "py_conv \<Rightarrow> json \<Rightarrow> (string \<times> datetime \<times> real \<times> real) option" where
  "parse_trade cv msg =
     (case msg of
        JObj items \<Rightarrow>
          (let mkt = py_str cv (dict_get items ''code'' JNull) in
           case py_float cv (dict_get items ''trade_price'' JNull) of
             None \<Rightarrow> None
           | Some price \<Rightarrow>
               (case py_float cv (dict_get items ''trade_volume'' (JFloat 0)) of
                  None \<Rightarrow> None
                | Some vol \<Rightarrow>
                    (case py_int_of cv (dict_get items ''timestamp''
                            (dict_get items ''trade_timestamp'' JNull)) of
                       None \<Rightarrow> None
                     | Some ts_ms \<Rightarrow>
                         (case fromtimestamp_ms ts_ms of
                            None \<Rightarrow> None
                          | Some ts \<Rightarrow> Some (mkt, ts, price, vol)))))
      | _ \<Rightarrow> None)"

text \<open>\<^verbatim>\<open>_parse_trade\<close> of \<^verbatim>\<open>ws_loop.py\<close>: the same without the market.\<close>

definition parse_trade_single :: "py_conv \<Rightarrow> json \<Rightarrow> (datetime \<times> real \<times> real) option" where
  "parse_trade_single cv msg =
     (case msg of
        JObj items \<Rightarrow>
          (case py_float cv (dict_get items ''trade_price'' JNull) of
             None \<Rightarrow> None
           | Some price \<Rightarrow>
               (case py_float cv (dict_get items ''trade_volume'' (JFloat 0)) of
                  None \<Rightarrow> None
                | Some vol \<Rightarrow>
                    (case py_int_of cv (dict_get items ''timestamp''
                            (dict_get items ''trade_timestamp'' JNull)) of
                       None \<Rightarrow> None
                     | Some ts_ms \<Rightarrow>
                         (case fromtimestamp_ms ts_ms of
                            None \<Rightarrow> None
                          | Some ts \<Rightarrow> Some (ts, price, vol)))))
      | _ \<Rightarrow> None)"

section \<open>The broker as the live loops use it\<close>

record OrderRequest =
  side :: string
  req_market :: string
  req_size :: "real option"
  req_price :: "real option"
  order_type :: string
  ident :: "string option"

text \<open>
  The exchange is outside the program: its state is a value of a type \<^typ>\<open>'b\<close>, and each
  call returns what the method returns or the message of the exception it raises,
  together with the exchange's next state. A response to \<^verbatim>\<open>place_order\<close> is the \<^verbatim>\<open>uuid\<close> in
  it, a response to \<^verbatim>\<open>get_order\<close> the \<^verbatim>\<open>state\<close> in it, and \<^verbatim>\<open>get_accounts\<close> returns the
  currency and the balance (as a float) of each account.
\<close>

type_synonym accounts = "(string \<times> real) list"

record 'b broker =
  place_order :: "'b \<Rightarrow> OrderRequest \<Rightarrow> (string + string option) \<times> 'b"
  get_accounts :: "'b \<Rightarrow> (string + accounts) \<times> 'b"
  get_order :: "'b \<Rightarrow> string \<Rightarrow> (string + string option) \<times> 'b"

text \<open>\<^verbatim>\<open>next((float(a.get("balance", 0)) for a in accts if a.get("currency") == code), default)\<close>\<close>

definition balance_of :: "accounts \<Rightarrow> string \<Rightarrow> real \<Rightarrow> real" where
  "balance_of accts code dflt = (case map_of accts code of None \<Rightarrow> dflt | Some b \<Rightarrow> b)"

text \<open>The calls of the logger that the live loops make about orders, signals and risk.\<close>

datatype live_event =
    Submitted OrderRequest "string option"
  | Order_error string string
  | Order_skipped string string
  | Signal_changed string int
  | Risk_violation real

section \<open>Portfolio coordinator (ua/live/portfolio_ws.py)\<close>

text \<open>
  \<^verbatim>\<open>MarketState\<close>. The fields \<^verbatim>\<open>market\<close>, \<^verbatim>\<open>last_trade_bar\<close> and \<^verbatim>\<open>entry_price\<close> carry the prefix
  \<^verbatim>\<open>ms_\<close>, and the arguments \<^verbatim>\<open>max_fraction\<close> and \<^verbatim>\<open>cooldown_bars\<close> below the prefix \<^verbatim>\<open>cfg_\<close>,
  to keep them apart from the simulator's names; \<^verbatim>\<open>req_\<close> does the same for the fields of
  an order request.
\<close>

record MarketState =
  ms_market :: string
  currency :: string
  agg :: "CandleBucket option"
  df :: "bar list"
  bars :: int
  ms_last_trade_bar :: int
  last_signal :: int
  coin_qty :: real
  ms_entry_price :: real
  trail_stop :: "real option"
  partial_done :: bool
  price_unit :: "real option"
  min_total :: "real option"

text \<open>
  The arguments of \<^verbatim>\<open>run_portfolio_ws\<close> that the loop reads, and three collaborators: the
  strategy's \<^verbatim>\<open>signals\<close> on the retained bars, the last value of the ATR indicator on them
  (\<^verbatim>\<open>None\<close> when it is NaN or the computation raises) and the allowed-hours test
  \<^verbatim>\<open>_in_windows\<close> at a bar's timestamp.
\<close>

record config =
  strategy_signals :: "bar list \<Rightarrow> int list"
  atr_last :: "bar list \<Rightarrow> real option"
  in_windows :: "datetime \<Rightarrow> bool"
  cfg_max_fraction :: real
  max_daily_loss :: real
  cfg_cooldown_bars :: int
  atr_trailing_mult :: real
  partial_tp_pct :: real
  partial_tp_ratio :: real

text \<open>
  The locals of \<^verbatim>\<open>run_portfolio_ws\<close> that outlive a message: the cash balance, the per-market
  states (the dict as its items), the equity at the start, and, for the model, the state
  of the exchange and the log written so far.
\<close>

record 'b pstate =
  krw_bal :: real
  states :: "(string \<times> MarketState) list"
  start_equity :: real
  brk :: "'b"
  events :: "live_event list"

definition put_state :: "string \<Rightarrow> MarketState \<Rightarrow> (string \<times> MarketState) list
    \<Rightarrow> (string \<times> MarketState) list" where
  "put_state mkt st sts = map (\<lambda>(k, v). if k = mkt then (k, st) else (k, v)) sts"

text \<open>
  \<^verbatim>\<open># ATR trailing stop (optional)\<close>. Everything is inside a \<^verbatim>\<open>try\<close> whose handler is
  \<^verbatim>\<open>pass\<close>: when the indicator or the read of the last close raises (an empty window), the
  stop stays as it is. \<^verbatim>\<open>st.trail_stop or 0.0\<close> is 0 for \<^verbatim>\<open>None\<close> and for a stop of 0.
\<close>

definition trail_update :: "config \<Rightarrow> MarketState \<Rightarrow> MarketState" where
  "trail_update cfg st =
     (if coin_qty st > 0 \<and> atr_trailing_mult cfg > 0 then
        (case atr_last cfg (df st) of
           None \<Rightarrow> st
         | Some last_atr \<Rightarrow>
             if df st = [] then st
             else
               (let new_trail = Close (last (df st)) - atr_trailing_mult cfg * last_atr;
                    prev = (case trail_stop st of None \<Rightarrow> 0 | Some t \<Rightarrow> if t = 0 then 0 else t)
                in st\<lparr>trail_stop := Some (max prev new_trail)\<rparr>))
      else st)"

text \<open>
  The three places where an order is sent. Each is the \<^verbatim>\<open>try\<close> block of the source: when
  \<^verbatim>\<open>place_order\<close> or \<^verbatim>\<open>get_accounts\<close> raises, the assignments after it are not made and
  \<^verbatim>\<open>order.error\<close> is logged.
\<close>

definition exit_order :: "'b broker \<Rightarrow> 'b pstate \<Rightarrow> MarketState \<Rightarrow> 'b pstate \<times> MarketState" where
  "exit_order broker ps st =
     (let req = \<lparr>side = ''sell'', req_market = ms_market st, req_size = Some (coin_qty st), req_price = None,
                 order_type = ''market'', ident = None\<rparr>
      in case place_order broker (brk ps) req of
           (Inl e, b1) \<Rightarrow> (ps\<lparr>brk := b1, events := events ps @ [Order_error (ms_market st) e]\<rparr>, st)
         | (Inr uuid, b1) \<Rightarrow>
             (case get_accounts broker b1 of
                (Inl e, b2) \<Rightarrow>
                  (ps\<lparr>brk := b2,
                      events := events ps @ [Submitted req uuid, Order_error (ms_market st) e]\<rparr>, st)
              | (Inr accts, b2) \<Rightarrow>
                  (ps\<lparr>brk := b2, krw_bal := balance_of accts ''KRW'' (krw_bal ps),
                      events := events ps @ [Submitted req uuid]\<rparr>,
                   st\<lparr>coin_qty := balance_of accts (currency st) 0, ms_entry_price := 0,
                      trail_stop := None, partial_done := False, ms_last_trade_bar := bars st\<rparr>)))"

definition partial_tp :: "config \<Rightarrow> 'b broker \<Rightarrow> int \<Rightarrow> real \<Rightarrow> 'b pstate \<Rightarrow> MarketState
    \<Rightarrow> 'b pstate \<times> MarketState" where
  "partial_tp cfg broker s_val close_px ps st =
     (if coin_qty st > 0 \<and> partial_tp_pct cfg > 0 \<and> s_val \<ge> 0
         \<and> ms_entry_price st > 0 \<and> ms_entry_price st * (1 + partial_tp_pct cfg) \<noteq> 0
         \<and> close_px \<ge> ms_entry_price st * (1 + partial_tp_pct cfg) \<and> \<not> partial_done st
      then
        (let sz = coin_qty st * partial_tp_ratio cfg;
             req = \<lparr>side = ''sell'', req_market = ms_market st, req_size = Some sz, req_price = None,
                    order_type = ''market'', ident = None\<rparr>
         in case place_order broker (brk ps) req of
              (Inl e, b1) \<Rightarrow> (ps\<lparr>brk := b1, events := events ps @ [Order_error (ms_market st) e]\<rparr>, st)
            | (Inr uuid, b1) \<Rightarrow>
                (case get_accounts broker b1 of
                   (Inl e, b2) \<Rightarrow>
                     (ps\<lparr>brk := b2,
                         events := events ps @ [Submitted req uuid, Order_error (ms_market st) e]\<rparr>, st)
                 | (Inr accts, b2) \<Rightarrow>
                     (ps\<lparr>brk := b2, krw_bal := balance_of accts ''KRW'' (krw_bal ps),
                         events := events ps @ [Submitted req uuid]\<rparr>,
                      st\<lparr>coin_qty := balance_of accts (currency st) (coin_qty st - sz),
                         partial_done := True\<rparr>)))
      else (ps, st))"

definition entry_order :: "config \<Rightarrow> 'b broker \<Rightarrow> int \<Rightarrow> bool \<Rightarrow> real \<Rightarrow> 'b pstate \<Rightarrow> MarketState
    \<Rightarrow> 'b pstate \<times> MarketState" where
  "entry_order cfg broker s_val in_hours close_px ps st =
     (if s_val = 1 \<and> coin_qty st = 0 \<and> in_hours \<and> bars st - ms_last_trade_bar st \<ge> cfg_cooldown_bars cfg
      then
        (let budget = krw_bal ps * cfg_max_fraction cfg in
         if (case min_total st of None \<Rightarrow> False | Some m \<Rightarrow> m \<noteq> 0 \<and> budget < m) then
           (ps\<lparr>events := events ps @ [Order_skipped (ms_market st) ''budget_too_small'']\<rparr>, st)
         else
           (let budget' = (case price_unit st of
                             None \<Rightarrow> budget
                           | Some u \<Rightarrow> if u = 0 then budget else quantize_price budget (Some u));
                req = \<lparr>side = ''buy'', req_market = ms_market st, req_size = None, req_price = Some budget',
                       order_type = ''price'', ident = None\<rparr>
            in case place_order broker (brk ps) req of
                 (Inl e, b1) \<Rightarrow>
                   (ps\<lparr>brk := b1, events := events ps @ [Order_error (ms_market st) e]\<rparr>, st)
               | (Inr uuid, b1) \<Rightarrow>
                   (case get_accounts broker b1 of
                      (Inl e, b2) \<Rightarrow>
                        (ps\<lparr>brk := b2,
                            events := events ps @ [Submitted req uuid, Order_error (ms_market st) e]\<rparr>,
                         st)
                    | (Inr accts, b2) \<Rightarrow>
                        (ps\<lparr>brk := b2, krw_bal := balance_of accts ''KRW'' (krw_bal ps),
                            events := events ps @ [Submitted req uuid]\<rparr>,
                         st\<lparr>coin_qty := balance_of accts (currency st) (coin_qty st),
                            ms_entry_price := close_px, trail_stop := None, partial_done := False,
                            ms_last_trade_bar := bars st\<rparr>))))
      else (ps, st))"

text \<open>
  The body of \<^verbatim>\<open>if row is not None\<close>: the finalized bar is appended to the market's window
  (at most 2000 bars are kept), the signal is recomputed on the window, then trailing
  stop, exit, partial take-profit and entry, in this order; an exit ends the handling of
  the message (\<^verbatim>\<open>continue\<close>).
\<close>

definition on_bar :: "config \<Rightarrow> 'b broker \<Rightarrow> real \<Rightarrow> bar \<Rightarrow> 'b pstate \<Rightarrow> MarketState
    \<Rightarrow> 'b pstate \<times> MarketState" where
  "on_bar cfg broker price row ps st =
     (let df1 = df st @ [row];
          df2 = (if length df1 > 2000 then drop (length df1 - 2000) df1 else df1);
          st1 = st\<lparr>df := df2, bars := bars st + 1\<rparr>;
          in_hours = in_windows cfg (timestamp row);
          s_series = strategy_signals cfg (df st1);
          s_val = (if s_series = [] then 0 else last s_series);
          ps1 = (if s_val \<noteq> last_signal st1
                 then ps\<lparr>events := events ps @ [Signal_changed (ms_market st1) s_val]\<rparr> else ps);
          st2 = (if s_val \<noteq> last_signal st1 then st1\<lparr>last_signal := s_val\<rparr> else st1);
          st3 = trail_update cfg st2;
          close_px = (if df st3 = [] then price else Close (last (df st3)));
          do_exit = (coin_qty st3 > 0
                     \<and> ((case trail_stop st3 of None \<Rightarrow> False | Some t \<Rightarrow> close_px \<le> t)
                        \<or> s_val = - 1))
      in if do_exit then exit_order broker ps1 st3
         else (case partial_tp cfg broker s_val close_px ps1 st3 of
                 (ps2, st4) \<Rightarrow> entry_order cfg broker s_val in_hours close_px ps2 st4))"

text \<open>
  The portfolio equity of a tick: cash plus, per market, the quantity held times the
  tick's price for the market that ticked and the last close of the window (0 without
  one) for the others.
\<close>

definition portfolio_equity :: "'b pstate \<Rightarrow> string \<Rightarrow> real \<Rightarrow> real" where
  "portfolio_equity ps mkt price =
     krw_bal ps + sum_list (map (\<lambda>(k, s). coin_qty s *
        (if ms_market s = mkt then price else if df s \<noteq> [] then Close (last (df s)) else 0))
        (states ps))"

text \<open>
  What handling one received frame does to the loop: go on with the next message, return
  from \<^verbatim>\<open>run_portfolio_ws\<close> (with the equity of the dict returned), or raise into the handler
  of the outer loop, which sleeps, reconnects and subscribes again; the locals are those
  of the function, so they are kept.
\<close>

datatype 'b outcome = Continue "'b pstate" | Returned real "'b pstate" | Reconnect "'b pstate"

definition on_trade :: "config \<Rightarrow> 'b broker \<Rightarrow> 'b pstate \<Rightarrow> string \<times> datetime \<times> real \<times> real
    \<Rightarrow> 'b outcome" where
  "on_trade cfg broker ps trade =
     (case trade of (mkt, ts, price, vol) \<Rightarrow>
        (case map_of (states ps) mkt of
           None \<Rightarrow> Continue ps
         | Some st \<Rightarrow>
             (case update (agg st) ts price vol of
                (row, agg') \<Rightarrow>
                  (let st0 = st\<lparr>agg := agg'\<rparr>;
                       ps0 = ps\<lparr>states := put_state mkt st0 (states ps)\<rparr>;
                       equity = portfolio_equity ps0 mkt price
                   in if start_equity ps0 > 0 \<and> max_daily_loss cfg > 0
                        \<and> (equity - start_equity ps0) / start_equity ps0 \<le> - max_daily_loss cfg
                      then Returned equity (ps0\<lparr>events := events ps0 @
                             [Risk_violation ((equity - start_equity ps0) / start_equity ps0)]\<rparr>)
                      else (case row of
                              None \<Rightarrow> Continue ps0
                            | Some r \<Rightarrow>
                                (case on_bar cfg broker price r ps0 st0 of
                                   (ps1, st1) \<Rightarrow>
                                     Continue (ps1\<lparr>states := put_state mkt st1 (states ps1)\<rparr>)))))))"

text \<open>One received frame: \<^verbatim>\<open>json.loads\<close>, \<^verbatim>\<open>_parse_trade\<close>, and the rest of the loop body.\<close>

definition on_frame :: "py_conv \<Rightarrow> config \<Rightarrow> 'b broker \<Rightarrow> 'b pstate \<Rightarrow> json option \<Rightarrow> 'b outcome" where
  "on_frame cv cfg broker ps frame =
     (case frame of
        None \<Rightarrow> Reconnect ps
      | Some data \<Rightarrow>
          (case parse_trade cv data of
             None \<Rightarrow> Continue ps
           | Some trade \<Rightarrow> on_trade cfg broker ps trade))"

text \<open>
  The frames received one after the other, over reconnections: the loop ends only by the
  \<^verbatim>\<open>return\<close>; with no frame left it is waiting for the next one. A receive timeout (answered
  by a ping) and a connection failure touch no local but the backoff of the session, which
  is 0.5 again whenever a frame is received; they are left out.
\<close>

datatype 'b run_result = Running "'b pstate" | Stopped real "'b pstate"

fun run_frames :: "py_conv \<Rightarrow> config \<Rightarrow> 'b broker \<Rightarrow> 'b pstate \<Rightarrow> json option list
    \<Rightarrow> 'b run_result" where
  "run_frames cv cfg broker ps [] = Running ps"
| "run_frames cv cfg broker ps (frame # frames) =
     (case on_frame cv cfg broker ps frame of
        Continue ps' \<Rightarrow> run_frames cv cfg broker ps' frames
      | Reconnect ps' \<Rightarrow> run_frames cv cfg broker ps' frames
      | Returned equity ps' \<Rightarrow> Stopped equity ps')"

section \<open>Single-market live loop (ua/live/ws_loop.py)\<close>

text \<open>
  The arguments of \<^verbatim>\<open>run_live_ws\<close> and the locals it sets once before the loop (the
  currency of the market, the market's limits, the equity at the start); the prefix
  \<^verbatim>\<open>lv_\<close> keeps the names apart from those of the other components.
\<close>

record live_args =
  lv_market :: string
  lv_currency :: string
  lv_signals :: "bar list \<Rightarrow> int list"
  lv_max_fraction :: real
  lv_max_daily_loss :: real
  lv_cooldown_bars :: int
  lv_tick_log_interval :: real
  lv_price_unit :: "real option"
  lv_min_total :: "real option"
  lv_start_equity :: real

text \<open>The locals the loop updates, the state of the exchange and the log.\<close>

record 'b lstate =
  lv_agg :: "CandleBucket option"
  lv_df :: "bar list"
  lv_bars :: int
  lv_krw_bal :: real
  lv_coin_qty :: real
  lv_last_trade_bar :: int
  lv_last_signal :: int
  lv_last_tick_log_at :: real
  lv_brk :: "'b"
  lv_events :: "live_event list"
  lv_ticks_logged :: nat

text \<open>
  The status poll after an order: at most ten calls of \<^verbatim>\<open>get_order\<close>, ended by a final
  state or by an exception (which the poll's own \<^verbatim>\<open>try\<close> catches). It writes the log only;
  the model keeps the exchange's state.
\<close>

fun poll :: "'b broker \<Rightarrow> string \<Rightarrow> nat \<Rightarrow> 'b \<Rightarrow> 'b" where
  "poll broker uuid 0 b = b"
| "poll broker uuid (Suc n) b =
     (case get_order broker b uuid of
        (Inl e, b') \<Rightarrow> b'
      | (Inr state, b') \<Rightarrow>
          if state = Some ''done'' \<or> state = Some ''cancel'' \<or> state = Some ''cancelled'' then b'
          else poll broker uuid n b')"

definition poll_order :: "'b broker \<Rightarrow> string option \<Rightarrow> 'b \<Rightarrow> 'b" where
  "poll_order broker uuid b =
     (case uuid of None \<Rightarrow> b | Some u \<Rightarrow> if u = [] then b else poll broker u 10 b)"

text \<open>
  The \<^verbatim>\<open>try\<close> block with the two orders. \<^verbatim>\<open>last_trade_bar\<close> is assigned before the
  balances are refreshed, so it stays assigned when \<^verbatim>\<open>get_accounts\<close> raises.
\<close>

definition live_orders :: "live_args \<Rightarrow> 'b broker \<Rightarrow> int \<Rightarrow> 'b lstate \<Rightarrow> 'b lstate" where
  "live_orders a broker s st =
     (let cooldown_ready = (lv_bars st - lv_last_trade_bar st \<ge> lv_cooldown_bars a);
          st1 = (if s = 1 \<and> lv_coin_qty st > 0
                 then st\<lparr>lv_events := lv_events st @ [Order_skipped (lv_market a) ''already_in_position'']\<rparr>
                 else st);
          st2 = (if s = - 1 \<and> lv_coin_qty st1 = 0
                 then st1\<lparr>lv_events := lv_events st1 @ [Order_skipped (lv_market a) ''no_position'']\<rparr>
                 else st1)
      in
      if s = 1 \<and> lv_coin_qty st2 = 0 \<and> cooldown_ready then
        (let budget0 = lv_krw_bal st2 * lv_max_fraction a;
             budget = (case lv_price_unit a of
                         None \<Rightarrow> budget0
                       | Some u \<Rightarrow> if u = 0 then budget0
                           else (let q = quantize_price budget0 (Some u)
                                 in if q > 0 then q else budget0))
         in
         if (case lv_min_total a of None \<Rightarrow> False | Some m \<Rightarrow> m \<noteq> 0 \<and> budget < m) then
           st2\<lparr>lv_events := lv_events st2 @ [Order_skipped (lv_market a) ''budget_too_small'']\<rparr>
         else
           (let req = \<lparr>side = ''buy'', req_market = lv_market a, req_size = None,
                       req_price = Some budget, order_type = ''price'', ident = None\<rparr>
            in case place_order broker (lv_brk st2) req of
                 (Inl e, b1) \<Rightarrow>
                   st2\<lparr>lv_brk := b1, lv_events := lv_events st2 @ [Order_error (lv_market a) e]\<rparr>
               | (Inr uuid, b1) \<Rightarrow>
                   (let b2 = poll_order broker uuid b1;
                        st3 = st2\<lparr>lv_last_trade_bar := lv_bars st2\<rparr>
                    in case get_accounts broker b2 of
                         (Inl e, b3) \<Rightarrow>
                           st3\<lparr>lv_brk := b3, lv_events := lv_events st3 @
                                 [Submitted req uuid, Order_error (lv_market a) e]\<rparr>
                       | (Inr accts, b3) \<Rightarrow>
                           st3\<lparr>lv_brk := b3,
                               lv_krw_bal := balance_of accts ''KRW'' (lv_krw_bal st3),
                               lv_coin_qty := balance_of accts (lv_currency a) (lv_coin_qty st3),
                               lv_events := lv_events st3 @ [Submitted req uuid]\<rparr>)))
      else if s = - 1 \<and> lv_coin_qty st2 > 0 \<and> lv_bars st2 - lv_last_trade_bar st2 \<ge> lv_cooldown_bars a
      then
        (let req = \<lparr>side = ''sell'', req_market = lv_market a, req_size = Some (lv_coin_qty st2),
                    req_price = None, order_type = ''market'', ident = None\<rparr>
         in case place_order broker (lv_brk st2) req of
              (Inl e, b1) \<Rightarrow>
                st2\<lparr>lv_brk := b1, lv_events := lv_events st2 @ [Order_error (lv_market a) e]\<rparr>
            | (Inr uuid, b1) \<Rightarrow>
                (let b2 = poll_order broker uuid b1;
                     st3 = st2\<lparr>lv_last_trade_bar := lv_bars st2\<rparr>
                 in case get_accounts broker b2 of
                      (Inl e, b3) \<Rightarrow>
                        st3\<lparr>lv_brk := b3, lv_events := lv_events st3 @
                              [Submitted req uuid, Order_error (lv_market a) e]\<rparr>
                    | (Inr accts, b3) \<Rightarrow>
                        st3\<lparr>lv_brk := b3,
                            lv_krw_bal := balance_of accts ''KRW'' (lv_krw_bal st3),
                            lv_coin_qty := balance_of accts (lv_currency a) 0,
                            lv_events := lv_events st3 @ [Submitted req uuid]\<rparr>))
      else st2)"

text \<open>
  The body of \<^verbatim>\<open>if row is not None\<close>; at most 600 bars are kept. The \<^verbatim>\<open>bar.closed\<close> log and
  the strategy's optional \<^verbatim>\<open>inspect\<close> hook, whose exceptions are swallowed, only write the
  log and are left out.
\<close>

definition live_on_bar :: "live_args \<Rightarrow> 'b broker \<Rightarrow> bar \<Rightarrow> 'b lstate \<Rightarrow> 'b lstate" where
  "live_on_bar a broker row st =
     (let df1 = lv_df st @ [row];
          df2 = (if length df1 > 600 then drop (length df1 - 600) df1 else df1);
          st1 = st\<lparr>lv_df := df2, lv_bars := lv_bars st + 1\<rparr>;
          sig = lv_signals a (lv_df st1);
          s = (if sig = [] then 0 else last sig);
          st2 = (if s \<noteq> lv_last_signal st1
                 then st1\<lparr>lv_last_signal := s,
                        lv_events := lv_events st1 @ [Signal_changed (lv_market a) s]\<rparr>
                 else st1)
      in live_orders a broker s st2)"

datatype 'b live_outcome = LContinue "'b lstate" | LReturned "'b lstate" | LReconnect "'b lstate"

text \<open>
  One received frame, with the value of \<^verbatim>\<open>time.time()\<close> read after a successful parse (it
  only paces the tick log, counted in \<^const>\<open>lv_ticks_logged\<close>).
\<close>

definition live_on_frame :: "py_conv \<Rightarrow> live_args \<Rightarrow> 'b broker \<Rightarrow> real \<Rightarrow> 'b lstate \<Rightarrow> json option
    \<Rightarrow> 'b live_outcome" where
  "live_on_frame cv a broker now st frame =
     (case frame of
        None \<Rightarrow> LReconnect st
      | Some data \<Rightarrow>
          (case parse_trade_single cv data of
             None \<Rightarrow> LContinue st
           | Some (ts, price, vol) \<Rightarrow>
               (let st1 = (if lv_tick_log_interval a > 0
                              \<and> now - lv_last_tick_log_at st \<ge> lv_tick_log_interval a
                           then st\<lparr>lv_last_tick_log_at := now,
                                  lv_ticks_logged := lv_ticks_logged st + 1\<rparr>
                           else st)
                in case update (lv_agg st1) ts price vol of
                     (row, agg') \<Rightarrow>
                       (let st2 = st1\<lparr>lv_agg := agg'\<rparr>;
                            equity = lv_krw_bal st2 + lv_coin_qty st2 * price
                        in if lv_start_equity a > 0 \<and> lv_max_daily_loss a > 0
                             \<and> (equity - lv_start_equity a) / lv_start_equity a
                                 \<le> - lv_max_daily_loss a
                           then LReturned (st2\<lparr>lv_events := lv_events st2 @
                                  [Risk_violation ((equity - lv_start_equity a) / lv_start_equity a)]\<rparr>)
                           else (case row of
                                   None \<Rightarrow> LContinue st2
                                 | Some r \<Rightarrow> LContinue (live_on_bar a broker r st2))))))"

text \<open>The frames received one after the other, each with its reading of the clock.\<close>

datatype 'b live_result = LRunning "'b lstate" | LStopped "'b lstate"

fun run_live_frames :: "py_conv \<Rightarrow> live_args \<Rightarrow> 'b broker \<Rightarrow> 'b lstate
    \<Rightarrow> (json option \<times> real) list \<Rightarrow> 'b live_result" where
  "run_live_frames cv a broker st [] = LRunning st"
| "run_live_frames cv a broker st ((frame, now) # frames) =
     (case live_on_frame cv a broker now st frame of
        LContinue st' \<Rightarrow> run_live_frames cv a broker st' frames
      | LReconnect st' \<Rightarrow> run_live_frames cv a broker st' frames
      | LReturned st' \<Rightarrow> LStopped st')"

section \<open>Assumptions on the exchange\<close>








section \<open>REST client: retries and error taxonomy (ua/broker/upbit.py, ua/broker/errors.py)\<close>

datatype upbit_error = AuthenticationError | PermissionError | RateLimitError
  | InvalidRequestError | NotFoundError | ExchangeError

text \<open>
  What one pass through the \<^verbatim>\<open>try\<close> block of \<^verbatim>\<open>_request\<close> can do: return the response,
  raise \<^verbatim>\<open>httpx.HTTPStatusError\<close> (with the status code the handler reads, \<^verbatim>\<open>None\<close> when
  the error has no response, and the value of the \<^verbatim>\<open>Retry-After\<close> header: \<^verbatim>\<open>None\<close> when
  the header is absent, empty or not a float), or raise \<^verbatim>\<open>httpx.RequestError\<close>, the
  transport-level failure.
\<close>

datatype 'r attempt = Response 'r | HTTPStatusError "int option" "real option" | RequestError

text \<open>\<^verbatim>\<open>status in (429, 500, 502, 503, 504)\<close>\<close>

definition retry_status :: "int option \<Rightarrow> bool" where
  "retry_status status =
     (case status of None \<Rightarrow> False | Some st \<Rightarrow> st \<in> {429, 500, 502, 503, 504})"

text \<open>\<^verbatim>\<open>UpbitBroker._raise_http_error\<close>: the exception class it raises.\<close>

definition raise_http_error :: "int option \<Rightarrow> upbit_error" where
  "raise_http_error status =
     (if status = Some 401 then AuthenticationError
      else if status = Some 403 then PermissionError
      else if status = Some 404 then NotFoundError
      else if status = Some 429 then RateLimitError
      else if (case status of None \<Rightarrow> False | Some st \<Rightarrow> st \<noteq> 0 \<and> 400 \<le> st \<and> st < 500)
        then InvalidRequestError
      else ExchangeError)"

text \<open>
  The loop \<^verbatim>\<open>for attempt in range(max_retries)\<close> of \<^verbatim>\<open>UpbitBroker._request\<close>, from the
  attempt numbered \<^term>\<open>attempt\<close> with \<^term>\<open>n\<close> attempts left. \<^term>\<open>http k\<close> is what
  the HTTP call of attempt \<^term>\<open>k\<close> does and \<^term>\<open>rnd k\<close> what \<^verbatim>\<open>random.random()\<close>
  returns in that attempt. The result is the response or the exception raised, the
  arguments of the calls of \<^verbatim>\<open>time.sleep\<close> in order, and the number of HTTP calls made.
\<close>

fun request_loop :: "(nat \<Rightarrow> 'r attempt) \<Rightarrow> (nat \<Rightarrow> real) \<Rightarrow> nat \<Rightarrow> nat \<Rightarrow> real
    \<Rightarrow> (upbit_error + 'r) \<times> real list \<times> nat" where
  "request_loop http rnd attempt 0 backoff = (Inl RateLimitError, [], attempt)"
| "request_loop http rnd attempt (Suc n) backoff =
     (case http attempt of
        Response r \<Rightarrow> (Inr r, [], Suc attempt)
      | HTTPStatusError status raf \<Rightarrow>
          if retry_status status then
            (let ra = (case raf of None \<Rightarrow> 0 | Some x \<Rightarrow> x);
                 wait = max backoff ra;
                 wait' = wait * (1 + 2 / 10 * rnd attempt)
             in case request_loop http rnd (Suc attempt) n (min (backoff * 2) 8) of
                  (res, sleeps, calls) \<Rightarrow> (res, wait' # sleeps, calls))
          else (Inl (raise_http_error status), [], Suc attempt)
      | RequestError \<Rightarrow>
          (case request_loop http rnd (Suc attempt) n (min (backoff * 2) 8) of
             (res, sleeps, calls) \<Rightarrow> (res, backoff # sleeps, calls)))"

text \<open>\<^verbatim>\<open>_request\<close> with its default \<^verbatim>\<open>max_retries=5\<close>, which no caller overrides.\<close>

definition request :: "(nat \<Rightarrow> 'r attempt) \<Rightarrow> (nat \<Rightarrow> real)
    \<Rightarrow> (upbit_error + 'r) \<times> real list \<times> nat" where
  "request http rnd = request_loop http rnd 0 5 (1 / 2)"

subsection \<open>The retry policy in closed form\<close>

text \<open>
  An attempt is retried when it fails with a retried status or at transport level. The
  backoff before the sleep of attempt \<^term>\<open>k\<close> is 0.5 doubled \<^term>\<open>k\<close> times, at most 8;
  the sleep of a retried attempt is the backoff for a transport failure, and the larger
  of backoff and \<^verbatim>\<open>Retry-After\<close>, stretched by the jitter, for a status.
\<close>

definition retried :: "'r attempt \<Rightarrow> bool" where
  "retried att = (case att of Response r \<Rightarrow> False
     | HTTPStatusError status raf \<Rightarrow> retry_status status | RequestError \<Rightarrow> True)"

definition backoff_at :: "nat \<Rightarrow> real" where
  "backoff_at k = min (2 ^ k / 2) 8"

definition wait_at :: "(nat \<Rightarrow> 'r attempt) \<Rightarrow> (nat \<Rightarrow> real) \<Rightarrow> nat \<Rightarrow> real" where
  "wait_at http rnd k =
     (case http k of
        Response r \<Rightarrow> 0
      | HTTPStatusError status raf \<Rightarrow>
          max (backoff_at k) (case raf of None \<Rightarrow> 0 | Some x \<Rightarrow> x) * (1 + 2 / 10 * rnd k)
      | RequestError \<Rightarrow> backoff_at k)"

section \<open>Concrete inputs\<close>

text \<open>
  A session on one market, KRW-BTC, after a buy of 10 coins at 100 with all of the 1000
  of starting cash; a trade message; an exchange that accepts every order (its state is
  the list of the orders accepted) and reports the balances 0 KRW and 10 BTC before the
  first order, 500 KRW and no BTC after it; a strategy that signals an exit on a bar that
  closes under 60 and an entry on a bar that closes above 200.
\<close>

definition ex_conv :: py_conv where
  "ex_conv = \<lparr>float_of_str = (\<lambda>s. None), int_of_str = (\<lambda>s. None), repr = (\<lambda>j. [])\<rparr>"

definition ex_tick :: "int \<Rightarrow> real \<Rightarrow> json" where
  "ex_tick ts_ms p = JObj [(''code'', JStr ''KRW-BTC''), (''trade_price'', JFloat p),
     (''trade_volume'', JFloat 1), (''timestamp'', JInt ts_ms)]"

definition ex_broker :: "(OrderRequest list) broker" where
  "ex_broker = \<lparr>place_order = (\<lambda>b req. (Inr (Some ''uuid-1''), b @ [req])),
     get_accounts = (\<lambda>b. (Inr (if b = [] then [(''KRW'', 0), (''BTC'', 10)]
                                 else [(''KRW'', 500)]), b)),
     get_order = (\<lambda>b u. (Inr (Some ''done''), b))\<rparr>"

definition ex_signals :: "bar list \<Rightarrow> int list" where
  "ex_signals rows = map (\<lambda>r. if Close r < 60 then - 1 else if Close r > 200 then 1 else 0) rows"

definition ex_config :: "real \<Rightarrow> config" where
  "ex_config mdl = \<lparr>strategy_signals = ex_signals, atr_last = (\<lambda>rows. Some 5),
     in_windows = (\<lambda>ts. True), cfg_max_fraction = 1, max_daily_loss = mdl,
     cfg_cooldown_bars = 0, atr_trailing_mult = 2, partial_tp_pct = 1 / 10,
     partial_tp_ratio = 1 / 2\<rparr>"

definition ex_market :: MarketState where
  "ex_market = \<lparr>ms_market = ''KRW-BTC'', currency = ''BTC'', agg = None, df = [], bars = 0,
     ms_last_trade_bar = - (10 ^ 9), last_signal = 0, coin_qty = 10, ms_entry_price = 100,
     trail_stop = None, partial_done = False, price_unit = None, min_total = None\<rparr>"

definition ex_pstate :: "(OrderRequest list) pstate" where
  "ex_pstate = \<lparr>krw_bal = 0, states = [(''KRW-BTC'', ex_market)], start_equity = 1000,
     brk = [], events = []\<rparr>"








definition ex_live_args :: live_args where
  "ex_live_args = \<lparr>lv_market = ''KRW-BTC'', lv_currency = ''BTC'', lv_signals = ex_signals,
     lv_max_fraction = 1, lv_max_daily_loss = 0, lv_cooldown_bars = 0,
     lv_tick_log_interval = 60, lv_price_unit = None, lv_min_total = None,
     lv_start_equity = 1000\<rparr>"

definition ex_lstate :: "(OrderRequest list) lstate" where
  "ex_lstate = \<lparr>lv_agg = None, lv_df = [], lv_bars = 0, lv_krw_bal = 0, lv_coin_qty = 10,
     lv_last_trade_bar = - (10 ^ 9), lv_last_signal = 0, lv_last_tick_log_at = 0,
     lv_brk = [], lv_events = [], lv_ticks_logged = 0\<rparr>"


section \<open>Bar aggregator: properties\<close>



text \<open>
  Claim C10. A tick whose floored minute is strictly earlier than the open bucket's start
  is merged like a same-minute tick: high, low, close and volume are updated, the start
  stays, no row is returned (and \<^const>\<open>update\<close> has no failing branch).
\<close>

theorem update_earlier_minute:
  "floor_minute ts < start b \<Longrightarrow>
     update (Some b) ts price vol =
       (None, Some (b\<lparr>high := max (high b) price, low := min (low b) price,
                      close := price, volume := volume b + vol\<rparr>))
     \<and> start (the (snd (update (Some b) ts price vol))) = start b"
  by (simp add: update_def)

theorem update_earlier_minute_witness:
  "floor_minute 59000000 < start (seed 60000000 100 1)
   \<and> update (Some (seed 60000000 100 1)) 59000000 90 2 =
       (None, Some \<lparr>start = 60000000, b_open = 100, high = 100, low = 90, close = 90, volume = 3\<rparr>)"
  using update_earlier_minute [of 59000000 "seed 60000000 100 1" 90 2]
  by (simp add: floor_minute_def seed_def)

section \<open>Price quantization: properties\<close>




































section \<open>Execution/accounting model: properties\<close>

text \<open>
  Claim C1. With closes 100, 100, 100, 50, signals 0, 1, 0, -1, cash 1000, no fee, no
  slippage, max_fraction 1, no cooldown and a drawdown stop of 0.3, the run returns
  StoppedReason \<^verbatim>\<open>risk_violation\<close> (final equity 500, one trade, the forced close),
  whatever \<^verbatim>\<open>run_id\<close> and \<^verbatim>\<open>market\<close> it was given, both without a logger and with a logger
  that takes every call (which then holds the four calls of the run: the three of the buy
  in bar 1 and the risk violation of bar 3). The loop stops in the bar of index 3, where
  equity 500 is 50 percent under the starting cash: whatever bars follow that bar in the
  two series, the loop ends in the same state, with four entries in the equity curve and
  the position still open.
\<close>

theorem risk_violation_scenario:
  "map_sum id (\<lambda>((m, eq), evs). (StoppedReason m, Equity_Final m, Num_Trades m, eq, evs))
     (simulate_long_only [100, 100, 100, 50] [0, 1, 0, - 1] 1000 0 0 1 0 (Some (3 / 10))
        None rid mk)
     = Inr (''risk_violation'', 500, 1, [1000, 1000, 1000, 500, 500], [])
   \<and> map_sum id (\<lambda>((m, eq), evs). (StoppedReason m, Equity_Final m, Num_Trades m, eq, evs))
     (simulate_long_only [100, 100, 100, 50] [0, 1, 0, - 1] 1000 0 0 1 0 (Some (3 / 10))
        (Some accept_all) rid mk)
     = Inr (''risk_violation'', 500, 1, [1000, 1000, 1000, 500, 500],
            [LogEvent ''order_submitted'' ''buy'' [100, 10, 0] rid mk 1,
             LogEvent ''order_filled'' ''buy'' [100, 10, 0] rid mk 1,
             LogEvent ''position_opened'' ''long'' [10, 100] rid mk 1,
             LogEvent ''risk_violation'' ''max_daily_loss'' [- (1 / 2), - (3 / 10)] rid mk 3])
   \<and> sim_loop \<lparr>cash = 1000, fee = 0, slippage = 0, max_fraction = 1, cooldown_bars = 0,
         stop_drawdown = Some (3 / 10), logger = None, run_id = rid, market = mk\<rparr> 0
       (zip ([100, 100, 100, 50] @ later_closes) ([0, 1, 0, - 1] @ later_signals))
       (sim_init \<lparr>cash = 1000, fee = 0, slippage = 0, max_fraction = 1, cooldown_bars = 0,
         stop_drawdown = Some (3 / 10), logger = None, run_id = rid, market = mk\<rparr>)
     = Inr (\<lparr>equity_curve = [1000, 1000, 1000, 500], position = 10, entry_price = 100,
              trades = [], wins = 0, cash_bal = 0, last_trade_bar = 1, logged = []\<rparr>,
            Some ''risk_violation'')"
proof -
  let ?a = "\<lambda>l. \<lparr>cash = 1000, fee = 0, slippage = 0, max_fraction = 1, cooldown_bars = 0,
         stop_drawdown = Some (3 / 10), logger = l, run_id = rid, market = mk\<rparr>"
  let ?evs = "[LogEvent ''order_submitted'' ''buy'' [100, 10, 0] rid mk 1,
             LogEvent ''order_filled'' ''buy'' [100, 10, 0] rid mk 1,
             LogEvent ''position_opened'' ''long'' [10, 100] rid mk 1,
             LogEvent ''risk_violation'' ''max_daily_loss'' [- (1 / 2), - (3 / 10)] rid mk 3]"
  have loop: "sim_loop (?a None) 0 (zip ([100, 100, 100, 50] @ ps) ([0, 1, 0, - 1] @ ss))
       (sim_init (?a None))
     = Inr (\<lparr>equity_curve = [1000, 1000, 1000, 500], position = 10, entry_price = 100,
              trades = [], wins = 0, cash_bal = 0, last_trade_bar = 1, logged = []\<rparr>,
            Some ''risk_violation'')" for ps ss
    by (simp add: sim_init_def sim_bar_def emit_def Let_def)
  have run: "simulate_args (?a None) [100, 100, 100, 50] [0, 1, 0, - 1]
      = Inr ((metrics_of (?a None) \<lparr>equity_curve = [1000, 1000, 1000, 500, 500], position = 0,
                entry_price = 0, trades = [- 50], wins = 0, cash_bal = 500, last_trade_bar = 1,
                logged = []\<rparr> (Some ''risk_violation''),
              [1000, 1000, 1000, 500, 500]), [])"
    using loop [of "[]" "[]"]
    by (simp add: simulate_args_def close_open_position_def trade_ret_of_def close_position_def
        Let_def)
  have loop': "sim_loop (?a (Some accept_all)) 0 (zip [100, 100, 100, 50] [0, 1, 0, - 1])
       (sim_init (?a (Some accept_all)))
     = Inr (\<lparr>equity_curve = [1000, 1000, 1000, 500], position = 10, entry_price = 100,
              trades = [], wins = 0, cash_bal = 0, last_trade_bar = 1, logged = ?evs\<rparr>,
            Some ''risk_violation'')"
    by (simp add: sim_init_def sim_bar_def emit_def accept_all_def Let_def)
  have run': "simulate_args (?a (Some accept_all)) [100, 100, 100, 50] [0, 1, 0, - 1]
      = Inr ((metrics_of (?a (Some accept_all)) \<lparr>equity_curve = [1000, 1000, 1000, 500, 500],
                position = 0, entry_price = 0, trades = [- 50], wins = 0, cash_bal = 500,
                last_trade_bar = 1, logged = ?evs\<rparr> (Some ''risk_violation''),
              [1000, 1000, 1000, 500, 500]), ?evs)"
    using loop'
    by (simp add: simulate_args_def close_open_position_def trade_ret_of_def close_position_def
        Let_def)
  show ?thesis
    using loop [of later_closes later_signals]
    by (simp add: simulate_long_only_def run run' metrics_of_def Let_def)
qed

text \<open>
  With a logger that raises on its first call the same run does not return: the exception
  of the call in bar 1, the first order, leaves \<^verbatim>\<open>simulate_long_only\<close>.
\<close>

lemma refusing_logger_raises:
  "simulate_long_only [100, 100, 100, 50] [0, 1, 0, - 1] 1000 0 0 1 0 (Some (3 / 10))
     (Some refuse_all) rid mk = Inl TypeError"
  by (simp add: simulate_long_only_def simulate_args_def sim_init_def sim_bar_def emit_def
      refuse_all_def Let_def)

text \<open>A call of the logger that returns changes nothing but the calls taken.\<close>

lemma emit_Inr:
  assumes "emit a evs s = Inr s'"
  shows "\<exists>seen. s' = s\<lparr>logged := seen\<rparr>"
proof (cases "logger a")
  case None
  with assms have "s' = s\<lparr>logged := logged s\<rparr>" by (simp add: emit_def)
  then show ?thesis ..
next
  case (Some l)
  with assms show ?thesis by (auto simp add: emit_def split: sum.splits)
qed

lemma map_sum_Inr: "map_sum f g x = Inr y \<longleftrightarrow> (\<exists>z. x = Inr z \<and> y = g z)"
  by (cases x) auto


lemma sim_bar_entry_price:
  assumes "sim_bar a i price sg s = Inr (s', stop)" and "position s > 0 \<longrightarrow> entry_price s > 0"
  shows "position s' > 0 \<longrightarrow> entry_price s' > 0"
  using assms
  by (auto simp add: sim_bar_def Let_def map_sum_Inr trade_ret_of_def close_position_def
      dest!: emit_Inr split: option.splits if_splits)



text \<open>
  With series of the same length and no logger the simulator always returns a result: a
  held position has a positive entry price, so no division by \<^verbatim>\<open>entry_price\<close> raises.
\<close>

lemma sim_bar_returns:
  assumes "position s > 0 \<longrightarrow> entry_price s > 0" and "logger a = None"
  shows "\<exists>s' stop. sim_bar a i price sg s = Inr (s', stop)"
  using assms
  by (auto simp add: sim_bar_def Let_def emit_def trade_ret_of_def split: option.splits)

lemma sim_loop_returns:
  assumes "position s > 0 \<longrightarrow> entry_price s > 0" and "logger a = None"
  shows "\<exists>s' r. sim_loop a i bs s = Inr (s', r) \<and> (position s' > 0 \<longrightarrow> entry_price s' > 0)"
  using assms
proof (induction bs arbitrary: i s)
  case Nil
  then show ?case by simp
next
  case (Cons b bs)
  obtain price sg where b: "b = (price, sg)" by (cases b)
  obtain s1 stop where sb: "sim_bar a i price sg s = Inr (s1, stop)"
    using sim_bar_returns [OF Cons.prems] by blast
  have inv: "position s1 > 0 \<longrightarrow> entry_price s1 > 0"
    by (rule sim_bar_entry_price [OF sb Cons.prems(1)])
  show ?case
  proof (cases stop)
    case True
    with sb inv show ?thesis by (simp add: b)
  next
    case False
    with sb Cons.IH [OF inv Cons.prems(2), of "i + 1"] show ?thesis by (simp add: b)
  qed
qed

lemma simulate_args_returns:
  assumes "length signals = length closes" and "logger a = None"
  shows "\<exists>res evs. simulate_args a closes signals = Inr (res, evs)"
proof -
  have "position (sim_init a) > 0 \<longrightarrow> entry_price (sim_init a) > 0"
    by (simp add: sim_init_def)
  from sim_loop_returns [OF this assms(2), of 0 "zip closes signals"]
  obtain s r where l: "sim_loop a 0 (zip closes signals) (sim_init a) = Inr (s, r)"
    and inv: "position s > 0 \<longrightarrow> entry_price s > 0" by blast
  have "\<exists>s'. close_open_position a closes s = Inr s'"
    using inv by (auto simp: close_open_position_def trade_ret_of_def Let_def)
  then obtain s' where c: "close_open_position a closes s = Inr s'" ..
  show ?thesis using assms l c by (simp add: simulate_args_def)
qed
section \<open>REST client: properties\<close>

text \<open>
  While the attempts are retried, the loop sleeps the closed-form waits and goes on with
  the doubled, capped backoff.
\<close>

lemma backoff_at_Suc: "backoff_at (Suc k) = min (backoff_at k * 2) 8"
  by (simp add: backoff_at_def min_def)

lemma request_loop_retried:
  "\<forall>j<m. retried (http (k + j)) \<Longrightarrow> m \<le> n \<Longrightarrow>
   request_loop http rnd k n (backoff_at k) =
     (case request_loop http rnd (k + m) (n - m) (backoff_at (k + m)) of
        (res, sleeps, calls) \<Rightarrow> (res, map (wait_at http rnd) [k..<k + m] @ sleeps, calls))"
proof (induction m arbitrary: k n)
  case 0
  then show ?case by (simp split: prod.splits)
next
  case (Suc m)
  then obtain n' where n: "n = Suc n'" and mn: "m \<le> n'" by (cases n) auto
  have r0: "retried (http k)" using Suc.prems(1) by (metis add.right_neutral zero_less_Suc)
  have rest: "\<forall>j<m. retried (http (Suc k + j))"
    using Suc.prems(1) by (metis Suc_less_eq add_Suc_shift)
  have ih: "request_loop http rnd (Suc k) n' (backoff_at (Suc k)) =
     (case request_loop http rnd (Suc k + m) (n' - m) (backoff_at (Suc k + m)) of
        (res, sleeps, calls) \<Rightarrow> (res, map (wait_at http rnd) [Suc k..<Suc k + m] @ sleeps, calls))"
    by (rule Suc.IH [OF rest mn])
  have up: "map (wait_at http rnd) [k..<k + Suc m]
      = wait_at http rnd k # map (wait_at http rnd) [Suc k..<Suc k + m]"
    by (simp add: upt_rec)
  have km: "k + Suc m = Suc k + m" "n - Suc m = n' - m" by (simp_all add: n)
  obtain res sleeps calls where
    rl: "request_loop http rnd (Suc k + m) (n' - m) (backoff_at (Suc k + m)) = (res, sleeps, calls)"
    by (cases "request_loop http rnd (Suc k + m) (n' - m) (backoff_at (Suc k + m))")
  have ih': "request_loop http rnd (Suc k) n' (min (backoff_at k * 2) 8)
      = (res, map (wait_at http rnd) [Suc k..<Suc k + m] @ sleeps, calls)"
    using ih by (simp only: rl backoff_at_Suc prod.case)
  have rhs: "(case request_loop http rnd (k + Suc m) (n - Suc m) (backoff_at (k + Suc m)) of
        (res, sleeps, calls) \<Rightarrow> (res, map (wait_at http rnd) [k..<k + Suc m] @ sleeps, calls))
      = (res, wait_at http rnd k # map (wait_at http rnd) [Suc k..<Suc k + m] @ sleeps, calls)"
    unfolding up unfolding km rl by simp
  have lhs: "request_loop http rnd k n (backoff_at k)
      = (res, wait_at http rnd k # map (wait_at http rnd) [Suc k..<Suc k + m] @ sleeps, calls)"
  proof (cases "http k")
    case (Response r)
    with r0 show ?thesis by (simp add: retried_def)
  next
    case (HTTPStatusError status raf)
    with r0 have rs: "retry_status status" by (simp add: retried_def)
    have w: "wait_at http rnd k
        = max (backoff_at k) (case raf of None \<Rightarrow> 0 | Some x \<Rightarrow> x) * (1 + 2 / 10 * rnd k)"
      by (simp add: wait_at_def HTTPStatusError)
    show ?thesis
      by (simp add: n HTTPStatusError rs ih' w Let_def)
  next
    case RequestError
    have w: "wait_at http rnd k = backoff_at k"
      by (simp add: wait_at_def RequestError)
    show ?thesis
      by (simp add: n RequestError ih' w)
  qed
  show ?case by (simp only: lhs rhs)
qed

lemma backoff_at_pos: "0 < backoff_at k"
  by (simp add: backoff_at_def)

lemma request_retried_prefix:
  assumes "\<forall>j<k. retried (http j)" and "k \<le> 5"
  shows "request http rnd =
     (case request_loop http rnd k (5 - k) (backoff_at k) of
        (res, sleeps, calls) \<Rightarrow> (res, map (wait_at http rnd) [0..<k] @ sleeps, calls))"
proof -
  have b0: "backoff_at 0 = 1 / 2" by (simp add: backoff_at_def)
  show ?thesis
    using request_loop_retried [of k http 0 5 rnd] assms
    by (simp add: request_def b0)
qed

lemma wait_at_floor:
  assumes "http k = HTTPStatusError status raf" and "0 \<le> rnd k"
  shows "backoff_at k \<le> wait_at http rnd k"
    and "raf = Some ra \<Longrightarrow> ra \<le> wait_at http rnd k"
proof -
  let ?m = "max (backoff_at k) (case raf of None \<Rightarrow> 0 | Some x \<Rightarrow> x)"
  have w: "wait_at http rnd k = ?m * (1 + 2 / 10 * rnd k)"
    by (simp add: wait_at_def assms(1))
  have m0: "0 \<le> ?m" using backoff_at_pos [of k] by (simp add: max_def)
  have "?m * 1 \<le> ?m * (1 + 2 / 10 * rnd k)"
    using m0 assms(2) by (intro mult_left_mono) simp_all
  then have le: "?m \<le> wait_at http rnd k" by (simp add: w)
  show "backoff_at k \<le> wait_at http rnd k" using le by simp
  show "ra \<le> wait_at http rnd k" if "raf = Some ra" using le that by simp
qed

text \<open>
  Claim C5. A status in 429, 500, 502, 503, 504 or a transport failure is retried; when
  the first five attempts are all retried, the call made five HTTP requests and raises the
  exhausted-retry error; the backoff starts at 0.5 and doubles per attempt up to 8; the
  wait after a transport failure is the backoff, and the wait after a retried status is
  at least the backoff and at least the server's Retry-After (the jitter only lengthens
  it). A response at attempt k is returned after k waits. Any other status at attempt k
  raises at once, with no further request and no wait after it, the class of the
  taxonomy: 401 authentication, 403 permission, 404 not found, another 4xx invalid
  request, anything else the generic exchange error.
\<close>

theorem request_retry_policy:
  "((\<forall>j<5. retried (http j)) \<longrightarrow>
      request http rnd = (Inl RateLimitError, map (wait_at http rnd) [0..<5], 5))
   \<and> (k < 5 \<and> (\<forall>j<k. retried (http j)) \<and> http k = Response r \<longrightarrow>
      request http rnd = (Inr r, map (wait_at http rnd) [0..<k], Suc k))
   \<and> (k < 5 \<and> (\<forall>j<k. retried (http j)) \<and> http k = HTTPStatusError status raf
        \<and> \<not> retry_status status \<longrightarrow>
      request http rnd = (Inl (raise_http_error status), map (wait_at http rnd) [0..<k], Suc k))
   \<and> (retried att \<longleftrightarrow> att = RequestError
        \<or> (\<exists>st hdr. att = HTTPStatusError (Some st) hdr \<and> st \<in> {429, 500, 502, 503, 504}))
   \<and> backoff_at 0 = 1 / 2 \<and> backoff_at (Suc k) = min (2 * backoff_at k) 8
   \<and> (http k = RequestError \<longrightarrow> wait_at http rnd k = backoff_at k)
   \<and> (http k = HTTPStatusError status raf \<and> 0 \<le> rnd k \<longrightarrow>
        backoff_at k \<le> wait_at http rnd k \<and> (\<forall>ra. raf = Some ra \<longrightarrow> ra \<le> wait_at http rnd k))
   \<and> raise_http_error (Some 401) = AuthenticationError
   \<and> raise_http_error (Some 403) = PermissionError
   \<and> raise_http_error (Some 404) = NotFoundError
   \<and> (400 \<le> st \<and> st < 500 \<and> st \<notin> {401, 403, 404, 429} \<longrightarrow>
        raise_http_error (Some st) = InvalidRequestError)
   \<and> (st < 400 \<or> 500 \<le> st \<longrightarrow> raise_http_error (Some st) = ExchangeError)"
proof -
  have exhausted: "request http rnd = (Inl RateLimitError, map (wait_at http rnd) [0..<5], 5)"
    if "\<forall>j<5. retried (http j)"
    using request_retried_prefix [of 5 http rnd] that by simp
  have ok: "request http rnd = (Inr r, map (wait_at http rnd) [0..<k], Suc k)"
    if "k < 5" "\<forall>j<k. retried (http j)" "http k = Response r"
  proof -
    from that(1) have "5 - k = Suc (4 - k)" by simp
    then obtain n where n: "5 - k = Suc n" ..
    show ?thesis
      using request_retried_prefix [of k http rnd] that by (simp add: n)
  qed
  have fatal: "request http rnd =
      (Inl (raise_http_error status), map (wait_at http rnd) [0..<k], Suc k)"
    if "k < 5" "\<forall>j<k. retried (http j)" "http k = HTTPStatusError status raf"
      "\<not> retry_status status"
  proof -
    from that(1) have "5 - k = Suc (4 - k)" by simp
    then obtain n where n: "5 - k = Suc n" ..
    show ?thesis
      using request_retried_prefix [of k http rnd] that by (simp add: n)
  qed
  have ret: "retried att \<longleftrightarrow> att = RequestError
        \<or> (\<exists>st hdr. att = HTTPStatusError (Some st) hdr \<and> st \<in> {429, 500, 502, 503, 504})"
    by (cases att) (auto simp: retried_def retry_status_def split: option.splits)
  have b: "backoff_at 0 = 1 / 2" "backoff_at (Suc k) = min (2 * backoff_at k) 8"
    by (simp_all add: backoff_at_def min_def)
  have w1: "wait_at http rnd k = backoff_at k" if "http k = RequestError"
    using that by (simp add: wait_at_def)
  have tax: "raise_http_error (Some 401) = AuthenticationError"
    "raise_http_error (Some 403) = PermissionError"
    "raise_http_error (Some 404) = NotFoundError"
    "400 \<le> st \<and> st < 500 \<and> st \<notin> {401, 403, 404, 429} \<longrightarrow>
        raise_http_error (Some st) = InvalidRequestError"
    "st < 400 \<or> 500 \<le> st \<longrightarrow> raise_http_error (Some st) = ExchangeError"
    by (auto simp: raise_http_error_def)
  show ?thesis
    using exhausted ok fatal ret b w1 wait_at_floor [of http k status raf rnd] tax
    by blast
qed

text \<open>
  Three concrete calls: five transport failures; a 429 with Retry-After 3, then a 503,
  then a response; a transport failure and then a 401.
\<close>

theorem request_retry_policy_witness:
  "request (\<lambda>k. RequestError :: unit attempt) (\<lambda>k. 0)
      = (Inl RateLimitError, [1 / 2, 1, 2, 4, 8], 5)
   \<and> request (\<lambda>k. if k = 0 then HTTPStatusError (Some 429) (Some 3)
                    else if k = 1 then HTTPStatusError (Some 503) None else Response ()) (\<lambda>k. 1 / 2)
      = (Inr (), [33 / 10, 11 / 10], 3)
   \<and> request (\<lambda>k. if k = 0 then RequestError else HTTPStatusError (Some 401) None :: unit attempt)
        (\<lambda>k. 0)
      = (Inl AuthenticationError, [1 / 2], 2)
   \<and> raise_http_error (Some 422) = InvalidRequestError
   \<and> raise_http_error (Some 501) = ExchangeError"
proof -
  let ?h1 = "\<lambda>k::nat. RequestError :: unit attempt"
  let ?h2 = "\<lambda>k::nat. if k = 0 then HTTPStatusError (Some 429) (Some 3)
                    else if k = 1 then HTTPStatusError (Some 503) None else Response ()"
  let ?h3 = "\<lambda>k::nat. if k = 0 then RequestError else HTTPStatusError (Some 401) None :: unit attempt"
  have u: "[0..<5] = [0, 1, 2, 3, 4]" "[0..<2] = [0, 1]" "[0..<1] = [0]" "[0..<Suc 0] = [0]"
    by (simp_all add: upt_rec)
  have a: "request ?h1 (\<lambda>k. 0) = (Inl RateLimitError, [1 / 2, 1, 2, 4, 8], 5)"
    using request_retry_policy [of ?h1 "\<lambda>k. 0" 0 "()" None None RequestError 0]
    by (simp add: retried_def wait_at_def backoff_at_def u)
  have b: "request ?h2 (\<lambda>k. 1 / 2) = (Inr (), [33 / 10, 11 / 10], 3)"
    using request_retry_policy [of ?h2 "\<lambda>k. 1 / 2" 2 "()" None None RequestError 0]
    by (simp add: retried_def retry_status_def wait_at_def backoff_at_def u)
  have c: "request ?h3 (\<lambda>k. 0) = (Inl AuthenticationError, [1 / 2], 2)"
    using request_retry_policy [of ?h3 "\<lambda>k. 0" 1 "()" "Some 401" None RequestError 422]
    by (simp add: retried_def retry_status_def wait_at_def backoff_at_def u)
  have d: "raise_http_error (Some 422) = InvalidRequestError"
    "raise_http_error (Some 501) = ExchangeError"
    using request_retry_policy [of ?h1 "\<lambda>k. 0" 0 "()" None None RequestError 422]
      request_retry_policy [of ?h1 "\<lambda>k. 0" 0 "()" None None RequestError 501]
    by auto
  show ?thesis using a b c d by simp
qed

section \<open>Live loops: properties\<close>

text \<open>
  Claim C9. A frame that does not parse into a trade, because \<^verbatim>\<open>json.loads\<close> raises on it or
  because \<^verbatim>\<open>_parse_trade\<close> returns \<^verbatim>\<open>None\<close>, leaves every local of the loop as it was
  (aggregators, windows, quantities, balances, bar counters, the exchange untouched), in
  the portfolio loop and in the single-market loop, and the loop goes on with the frames
  that follow: directly after a failed \<^verbatim>\<open>_parse_trade\<close>, after the reconnection when
  \<^verbatim>\<open>json.loads\<close> raised.
\<close>

theorem unparsable_frame_dropped:
  "(frame = None \<or> (\<exists>data. frame = Some data \<and> parse_trade cv data = None) \<longrightarrow>
      on_frame cv cfg broker ps frame \<in> {Continue ps, Reconnect ps}
      \<and> run_frames cv cfg broker ps (frame # frames) = run_frames cv cfg broker ps frames)
   \<and> (frame = None \<or> (\<exists>data. frame = Some data \<and> parse_trade_single cv data = None) \<longrightarrow>
      live_on_frame cv a broker' now st frame \<in> {LContinue st, LReconnect st}
      \<and> run_live_frames cv a broker' st ((frame, now) # timed_frames)
          = run_live_frames cv a broker' st timed_frames)"
  by (auto simp: on_frame_def live_on_frame_def)

theorem unparsable_frame_dropped_witness:
  "parse_trade ex_conv (JObj [(''code'', JStr ''KRW-BTC''), (''trade_price'', JNull)]) = None
   \<and> parse_trade_single ex_conv (JArr []) = None
   \<and> run_frames ex_conv (ex_config 0) ex_broker ex_pstate
        [Some (JObj [(''code'', JStr ''KRW-BTC''), (''trade_price'', JNull)]), None] = Running ex_pstate
   \<and> run_live_frames ex_conv ex_live_args ex_broker ex_lstate [(Some (JArr []), 5), (None, 6)]
        = LRunning ex_lstate"
proof -
  let ?bad = "JObj [(''code'', JStr ''KRW-BTC''), (''trade_price'', JNull)]"
  have p: "parse_trade ex_conv ?bad = None"
    by (simp add: parse_trade_def dict_get_def py_float_def py_str_def)
  have q: "parse_trade_single ex_conv (JArr []) = None"
    by (simp add: parse_trade_single_def)
  have 1: "run_frames ex_conv (ex_config 0) ex_broker ex_pstate [Some ?bad, None]
      = run_frames ex_conv (ex_config 0) ex_broker ex_pstate [None]"
    using unparsable_frame_dropped [of "Some ?bad" ex_conv "ex_config 0" ex_broker ex_pstate "[None]"
        ex_live_args ex_broker 0 ex_lstate "[]"]
      p by (simp del: run_frames.simps(2) run_live_frames.simps(2))
  have 2: "run_frames ex_conv (ex_config 0) ex_broker ex_pstate [None] = Running ex_pstate"
    using unparsable_frame_dropped [of None ex_conv "ex_config 0" ex_broker ex_pstate "[]"
        ex_live_args ex_broker 0 ex_lstate "[]"]
    by (simp del: run_frames.simps(2) run_live_frames.simps(2))
  have 3: "run_live_frames ex_conv ex_live_args ex_broker ex_lstate [(Some (JArr []), 5), (None, 6)]
      = run_live_frames ex_conv ex_live_args ex_broker ex_lstate [(None, 6)]"
    using unparsable_frame_dropped [of "Some (JArr [])" ex_conv "ex_config 0" ex_broker ex_pstate "[]"
        ex_live_args ex_broker 5 ex_lstate "[(None, 6)]"] q
    by (simp del: run_frames.simps(2) run_live_frames.simps(2))
  have 4: "run_live_frames ex_conv ex_live_args ex_broker ex_lstate [(None, 6)] = LRunning ex_lstate"
    using unparsable_frame_dropped [of None ex_conv "ex_config 0" ex_broker ex_pstate "[]"
        ex_live_args ex_broker 6 ex_lstate "[]"]
    by (simp del: run_frames.simps(2) run_live_frames.simps(2))
  show ?thesis using p q 1 2 3 4 by simp
qed

text \<open>The example message parses when its timestamp is in range.\<close>

lemma ex_parse: "parse_trade ex_conv (ex_tick t p) =
    (if - 62135596800000 \<le> t \<and> t < 253402300800000 then Some (''KRW-BTC'', t * 1000, p, 1) else None)"
  by (simp add: parse_trade_def ex_tick_def dict_get_def py_float_def py_str_def py_int_of_def
      fromtimestamp_ms_def)

text \<open>
  Claim C2 as stated fails: the coordinator does not keep processing after the
  max-daily-loss halt. With 10 coins held and a tick at 50, equity 500 is half of the
  starting 1000, and \<^verbatim>\<open>run_portfolio_ws\<close> returns at that tick: the next tick, which closes a
  bar under 60 on which the strategy signals the exit, is never handled and no order
  reaches the exchange. With the halt disabled (\<^verbatim>\<open>max_daily_loss = 0\<close>) the same two ticks
  do send the market sell of the 10 coins.
\<close>

theorem halt_returns_counterexample:
  "run_frames ex_conv (ex_config (5 / 100)) ex_broker ex_pstate
       [Some (ex_tick 10000 50), Some (ex_tick 70000 50)]
     = Stopped 500 (ex_pstate\<lparr>
         states := [(''KRW-BTC'', ex_market\<lparr>agg := Some (seed 0 50 1)\<rparr>)],
         events := [Risk_violation (- (1 / 2))]\<rparr>)
   \<and> brk (ex_pstate\<lparr>
         states := [(''KRW-BTC'', ex_market\<lparr>agg := Some (seed 0 50 1)\<rparr>)],
         events := [Risk_violation (- (1 / 2))]\<rparr>) = []
   \<and> (case run_frames ex_conv (ex_config 0) ex_broker ex_pstate
            [Some (ex_tick 10000 50), Some (ex_tick 70000 50)] of
        Running ps \<Rightarrow> map req_size (brk ps) = [Some 10] \<and> map side (brk ps) = [''sell'']
      | Stopped e ps \<Rightarrow> False)"
proof -
  have 1: "on_frame ex_conv (ex_config (5 / 100)) ex_broker ex_pstate (Some (ex_tick 10000 50))
      = Returned 500 (ex_pstate\<lparr>
         states := [(''KRW-BTC'', ex_market\<lparr>agg := Some (seed 0 50 1)\<rparr>)],
         events := [Risk_violation (- (1 / 2))]\<rparr>)"
    by (simp add: on_frame_def ex_parse on_trade_def ex_pstate_def ex_market_def update_def
        floor_minute_def put_state_def portfolio_equity_def ex_config_def Let_def)
  have 2: "on_frame ex_conv (ex_config 0) ex_broker ex_pstate (Some (ex_tick 10000 50))
      = Continue (ex_pstate\<lparr>states := [(''KRW-BTC'', ex_market\<lparr>agg := Some (seed 0 50 1)\<rparr>)]\<rparr>)"
    by (simp add: on_frame_def ex_parse on_trade_def ex_pstate_def ex_market_def update_def
        floor_minute_def put_state_def portfolio_equity_def ex_config_def Let_def)
  have 3: "\<exists>ps. on_frame ex_conv (ex_config 0) ex_broker
        (ex_pstate\<lparr>states := [(''KRW-BTC'', ex_market\<lparr>agg := Some (seed 0 50 1)\<rparr>)]\<rparr>)
        (Some (ex_tick 70000 50)) = Continue ps
        \<and> map req_size (brk ps) = [Some 10] \<and> map side (brk ps) = [''sell'']"
    by (simp add: on_frame_def ex_parse on_trade_def ex_pstate_def ex_market_def update_def
        floor_minute_def put_state_def portfolio_equity_def ex_config_def Let_def seed_def
        bar_of_def on_bar_def ex_signals_def trail_update_def exit_order_def ex_broker_def
        balance_of_def)
  show ?thesis using 1 2 3 by (auto simp: ex_pstate_def)
qed

text \<open>
  The aggregator is the only part of a market's state that a tick changes before the risk
  test, so with the markets under distinct keys (they are the keys of a dict) the equity
  tested is the equity of the state the tick arrived in, and the quantities stay.
\<close>

lemma put_state_same:
  assumes "distinct (map fst sts)" and "map_of sts mkt = Some st"
    and "\<And>k. f (k, st') = f (k, st)"
  shows "map f (put_state mkt st' sts) = map f sts"
proof -
  have "f (if k = mkt then (k, st') else (k, v)) = f (k, v)" if "(k, v) \<in> set sts" for k v
  proof (cases "k = mkt")
    case True
    with that assms(1,2) have "v = st" by (simp add: map_of_eq_Some_iff)
    with True assms(3) show ?thesis by simp
  next
    case False
    then show ?thesis by simp
  qed
  then show ?thesis by (auto simp add: put_state_def)
qed

lemma portfolio_equity_put_state:
  assumes "distinct (map fst (states ps))" and "map_of (states ps) mkt = Some st"
  shows "portfolio_equity (ps\<lparr>states := put_state mkt (st\<lparr>agg := a\<rparr>) (states ps)\<rparr>) mkt price
    = portfolio_equity ps mkt price"
  using put_state_same [OF assms, where st' = "st\<lparr>agg := a\<rparr>"
      and f = "\<lambda>(k, s). coin_qty s *
        (if ms_market s = mkt then price else if df s \<noteq> [] then Close (last (df s)) else 0)"]
  by (simp add: portfolio_equity_def)

text \<open>
  Claim C2, amended. A tick of a subscribed market on which the portfolio equity is down
  from the starting equity by the max-daily-loss fraction or more (with both positive)
  makes \<^verbatim>\<open>run_portfolio_ws\<close> return at once with the risk stop and that equity: whatever
  frames follow, none is handled, and the halting tick sends no order and changes no
  balance and no quantity, so after the halt no entry and no exit is issued in any market
  and open positions stay open. On any other tick of a subscribed market the loop goes on
  with the next frame.
\<close>

theorem halt_returns_at_once:
  assumes "parse_trade cv data = Some (mkt, ts, price, vol)"
    and "map_of (states ps) mkt = Some st"
    and "distinct (map fst (states ps))"
  shows "if start_equity ps > 0 \<and> max_daily_loss cfg > 0
            \<and> (portfolio_equity ps mkt price - start_equity ps) / start_equity ps
                \<le> - max_daily_loss cfg
         then (\<exists>ps'. on_frame cv cfg broker ps (Some data)
                   = Returned (portfolio_equity ps mkt price) ps'
               \<and> run_frames cv cfg broker ps (Some data # frames)
                   = Stopped (portfolio_equity ps mkt price) ps'
               \<and> brk ps' = brk ps \<and> krw_bal ps' = krw_bal ps
               \<and> map (\<lambda>(k, s). (k, coin_qty s)) (states ps')
                   = map (\<lambda>(k, s). (k, coin_qty s)) (states ps)
               \<and> events ps' = events ps @
                   [Risk_violation ((portfolio_equity ps mkt price - start_equity ps)
                      / start_equity ps)])
         else (\<exists>ps'. on_frame cv cfg broker ps (Some data) = Continue ps'
               \<and> run_frames cv cfg broker ps (Some data # frames)
                   = run_frames cv cfg broker ps' frames)"
proof -
  obtain row agg' where u: "update (agg st) ts price vol = (row, agg')"
    by (cases "update (agg st) ts price vol")
  let ?ps0 = "ps\<lparr>states := put_state mkt (st\<lparr>agg := agg'\<rparr>) (states ps)\<rparr>"
  have eq: "portfolio_equity ?ps0 mkt price = portfolio_equity ps mkt price"
    by (rule portfolio_equity_put_state [OF assms(3,2)])
  have q: "map (\<lambda>(k, s). (k, coin_qty s)) (states ?ps0) = map (\<lambda>(k, s). (k, coin_qty s)) (states ps)"
    using put_state_same [OF assms(3,2), where st' = "st\<lparr>agg := agg'\<rparr>"
      and f = "\<lambda>(k, s). (k, coin_qty s)"] by simp
  show ?thesis
  proof (cases "start_equity ps > 0 \<and> max_daily_loss cfg > 0
            \<and> (portfolio_equity ps mkt price - start_equity ps) / start_equity ps
                \<le> - max_daily_loss cfg")
    case True
    have "on_frame cv cfg broker ps (Some data) = Returned (portfolio_equity ps mkt price)
        (?ps0\<lparr>events := events ps @
           [Risk_violation ((portfolio_equity ps mkt price - start_equity ps) / start_equity ps)]\<rparr>)"
      using True eq by (simp add: on_frame_def assms(1,2) on_trade_def u Let_def)
    with True q show ?thesis by simp
  next
    case False
    have "\<exists>ps'. on_frame cv cfg broker ps (Some data) = Continue ps'"
      using False eq
      by (auto simp add: on_frame_def assms(1,2) on_trade_def u Let_def
          split: option.splits prod.splits)
    with False show ?thesis by auto
  qed
qed

text \<open>
  The session of the example, halted by the tick at 50 (equity 500 of 1000, with a limit
  of 5 percent) whatever follows, and not halted by a tick at 100.
\<close>

theorem halt_returns_at_once_witness:
  "parse_trade ex_conv (ex_tick 10000 50) = Some (''KRW-BTC'', 10000000, 50, 1)
   \<and> map_of (states ex_pstate) ''KRW-BTC'' = Some ex_market
   \<and> distinct (map fst (states ex_pstate))
   \<and> portfolio_equity ex_pstate ''KRW-BTC'' 50 = 500
   \<and> (\<exists>ps'. run_frames ex_conv (ex_config (5 / 100)) ex_broker ex_pstate
            [Some (ex_tick 10000 50), Some (ex_tick 70000 50), Some (ex_tick 130000 300)]
          = Stopped 500 ps'
        \<and> brk ps' = [] \<and> krw_bal ps' = 0
        \<and> map (\<lambda>(k, s). (k, coin_qty s)) (states ps') = [(''KRW-BTC'', 10)]
        \<and> events ps' = [Risk_violation (- (1 / 2))])
   \<and> (\<exists>ps'. on_frame ex_conv (ex_config (5 / 100)) ex_broker ex_pstate
            (Some (ex_tick 10000 100)) = Continue ps')"
proof -
  have p: "parse_trade ex_conv (ex_tick 10000 50) = Some (''KRW-BTC'', 10000000, 50, 1)"
    "parse_trade ex_conv (ex_tick 10000 100) = Some (''KRW-BTC'', 10000000, 100, 1)"
    by (simp_all add: ex_parse)
  have m: "map_of (states ex_pstate) ''KRW-BTC'' = Some ex_market"
    "distinct (map fst (states ex_pstate))"
    by (simp_all add: ex_pstate_def)
  have e: "portfolio_equity ex_pstate ''KRW-BTC'' 50 = 500"
    "portfolio_equity ex_pstate ''KRW-BTC'' 100 = 1000"
    by (simp_all add: portfolio_equity_def ex_pstate_def ex_market_def)
  have c: "start_equity ex_pstate = 1000" "brk ex_pstate = []" "krw_bal ex_pstate = 0"
    "events ex_pstate = []"
    "map (\<lambda>(k, s). (k, coin_qty s)) (states ex_pstate) = [(''KRW-BTC'', 10)]"
    by (simp_all add: ex_pstate_def ex_market_def)
  have halt: "start_equity ex_pstate > 0 \<and> max_daily_loss (ex_config (5 / 100)) > 0
      \<and> (portfolio_equity ex_pstate ''KRW-BTC'' 50 - start_equity ex_pstate) / start_equity ex_pstate
          \<le> - max_daily_loss (ex_config (5 / 100))"
    by (simp add: e c ex_config_def)
  have go_on: "\<not> (start_equity ex_pstate > 0 \<and> max_daily_loss (ex_config (5 / 100)) > 0
      \<and> (portfolio_equity ex_pstate ''KRW-BTC'' 100 - start_equity ex_pstate) / start_equity ex_pstate
          \<le> - max_daily_loss (ex_config (5 / 100)))"
    by (simp add: e c ex_config_def)
  have 1: "\<exists>ps'. run_frames ex_conv (ex_config (5 / 100)) ex_broker ex_pstate
            [Some (ex_tick 10000 50), Some (ex_tick 70000 50), Some (ex_tick 130000 300)]
          = Stopped 500 ps'
        \<and> brk ps' = [] \<and> krw_bal ps' = 0
        \<and> map (\<lambda>(k, s). (k, coin_qty s)) (states ps') = [(''KRW-BTC'', 10)]
        \<and> events ps' = [Risk_violation (- (1 / 2))]"
  proof -
    from halt_returns_at_once [OF p(1) m, where cfg = "ex_config (5 / 100)"
        and broker = ex_broker
        and frames = "[Some (ex_tick 70000 50), Some (ex_tick 130000 300)]"]
    obtain ps' where r: "run_frames ex_conv (ex_config (5 / 100)) ex_broker ex_pstate
            [Some (ex_tick 10000 50), Some (ex_tick 70000 50), Some (ex_tick 130000 300)]
          = Stopped (portfolio_equity ex_pstate ''KRW-BTC'' 50) ps'"
      and b: "brk ps' = brk ex_pstate" "krw_bal ps' = krw_bal ex_pstate"
        "map (\<lambda>(k, s). (k, coin_qty s)) (states ps')
          = map (\<lambda>(k, s). (k, coin_qty s)) (states ex_pstate)"
        "events ps' = events ex_pstate @
           [Risk_violation ((portfolio_equity ex_pstate ''KRW-BTC'' 50 - start_equity ex_pstate)
              / start_equity ex_pstate)]"
      unfolding if_P [OF halt] by blast
    have r': "run_frames ex_conv (ex_config (5 / 100)) ex_broker ex_pstate
            [Some (ex_tick 10000 50), Some (ex_tick 70000 50), Some (ex_tick 130000 300)]
          = Stopped 500 ps'"
      using r by (simp only: e)
    have b': "brk ps' = []" "krw_bal ps' = 0"
      "map (\<lambda>(k, s). (k, coin_qty s)) (states ps') = [(''KRW-BTC'', 10)]"
      using b(1,2,3) by (simp_all only: c)
    have ev: "events ps' = [Risk_violation (- (1 / 2))]" using b(4) by (simp add: e c)
    show ?thesis by (rule exI [of _ ps']) (intro conjI r' b' ev)
  qed
  have 2: "\<exists>ps'. on_frame ex_conv (ex_config (5 / 100)) ex_broker ex_pstate
            (Some (ex_tick 10000 100)) = Continue ps'"
    using halt_returns_at_once [OF p(2) m, where cfg = "ex_config (5 / 100)"
        and broker = ex_broker and frames = "[]"]
    unfolding if_not_P [OF go_on] by blast
  show ?thesis using p(1) m e(1) 1 2 by blast
qed
section \<open>Trailing stop and positions of the live state machines\<close>











subsection \<open>Quantities\<close>


























end
